theory Spec2Isabelle
  imports Main "HOL-Library.Word"
begin

text \<open>
  A shallow embedding of three parts of the keyring: the signature verification
  engine (\<^verbatim>\<open>util-crypto/src/signature/verify.ts\<close>), the dispatcher of hierarchical
  key derivation (\<^verbatim>\<open>keyFromPath\<close>) and the keypair entity (\<^verbatim>\<open>createPair\<close>). The
  cryptographic primitives, the codecs and the byte-array helpers these files import
  are parameters of the model; exceptions are values; a method of a pair that assigns
  its state returns the new state.
\<close>

section \<open>Data model\<close>

text \<open>A \<^verbatim>\<open>Uint8Array\<close> is a list of bytes.\<close>

type_synonym u8a = "8 word list"

text \<open>\<^verbatim>\<open>KeypairType\<close>: the closed set of algorithm identifiers.\<close>

datatype KeypairType = ecdsa | ed25519 | ethereum | mldsa | sr25519

text \<open>The \<^verbatim>\<open>crypto\<close> field of a \<^verbatim>\<open>VerifyResult\<close>: \<^verbatim>\<open>'none' | KeypairType\<close>.\<close>

datatype Crypto = none | known KeypairType

datatype HashType = blake2 | keccak

text \<open>
  Every \<^verbatim>\<open>throw\<close> of the source is a value. \<open>CollaboratorError\<close> stands for an
  exception raised inside a function that the modelled code imports and calls; the
  string names the function.
\<close>

datatype error =
    InvalidSignatureLength nat
  | UnknownCryptoType "8 word option"
  | UnsupportedKeypairType
  | UnableToDerive
  | CannotDeriveLocked
  | CannotSignLocked
  | InvalidMldsaKeySizes nat nat
  | CollaboratorError string

text \<open>\<^verbatim>\<open>interface VerifyInput { message; publicKey; signature }\<close> (verify.ts, 15-19).\<close>

record VerifyInput =
  i_message :: u8a
  i_publicKey :: u8a
  i_signature :: u8a

text \<open>\<^verbatim>\<open>VerifyResult\<close>: \<^verbatim>\<open>{ crypto, isValid, isWrapped, publicKey }\<close>.\<close>

record VerifyResult =
  crypto :: Crypto
  isValid :: bool
  isWrapped :: bool
  r_publicKey :: u8a

text \<open>
  A native check takes message, signature and public key; it returns a boolean or
  throws (\<open>None\<close>). A \<^verbatim>\<open>Verifier\<close> is the pair \<^verbatim>\<open>[KeypairType, check]\<close>
  (verify.ts, 21).
\<close>

type_synonym VerifyPrim = "u8a \<Rightarrow> u8a \<Rightarrow> u8a \<Rightarrow> bool option"

type_synonym Verifier = "KeypairType \<times> VerifyPrim"

text \<open>
  The functions verify.ts imports: the four native checks, the lattice signature
  length, the address decoder and the three message-wrapping helpers. Their code is
  not part of the modelled files, so they are parameters of the model.
\<close>

record verify_prims =
  MLDSA_SIGNATURE_LENGTH :: nat
  ed25519Verify :: VerifyPrim
  mldsaVerify :: VerifyPrim
  sr25519Verify :: VerifyPrim
  secp256k1Verify :: "u8a \<Rightarrow> u8a \<Rightarrow> u8a \<Rightarrow> HashType \<Rightarrow> bool option"
  decodeAddress :: "u8a \<Rightarrow> u8a option"
  u8aIsWrapped :: "u8a \<Rightarrow> bool \<Rightarrow> bool"
  u8aUnwrapBytes :: "u8a \<Rightarrow> u8a"
  u8aWrapBytes :: "u8a \<Rightarrow> u8a"

text \<open>
  An attempt is one call of a native check: the algorithm it belongs to and the
  input it was given. Every function of the verification engine returns, next to its
  result, the attempts it made, in order.
\<close>

type_synonym Attempt = "KeypairType \<times> VerifyInput"

section \<open>The signature verification engine (verify.ts)\<close>

definition secp256k1VerifyHasher :: "verify_prims \<Rightarrow> HashType \<Rightarrow> VerifyPrim" where
  "secp256k1VerifyHasher p hashType =
     (\<lambda>message signature publicKey. secp256k1Verify p message signature publicKey hashType)"

definition VERIFIERS_ECDSA :: "verify_prims \<Rightarrow> Verifier list" where
  "VERIFIERS_ECDSA p =
     [(ecdsa, secp256k1VerifyHasher p blake2),
      (ethereum, secp256k1VerifyHasher p keccak)]"

definition VERIFIERS :: "verify_prims \<Rightarrow> Verifier list" where
  "VERIFIERS p =
     [(ed25519, ed25519Verify p),
      (mldsa, mldsaVerify p),
      (sr25519, sr25519Verify p)]"

text \<open>
  The callback of \<^verbatim>\<open>verifiers.some(...)\<close> in \<^verbatim>\<open>verifyDetect\<close>: a check that returns
  true records its algorithm and stops the scan; a check that returns false or throws
  moves on to the next verifier.
\<close>

fun verifiers_some ::
  "VerifyResult \<Rightarrow> VerifyInput \<Rightarrow> Verifier list \<Rightarrow> bool \<times> VerifyResult \<times> Attempt list"
where
  "verifiers_some result inp [] = (False, result, [])"
| "verifiers_some result inp ((crypto', verify) # rest) =
     (case verify (i_message inp) (i_signature inp) (i_publicKey inp) of
        Some True \<Rightarrow> (True, result\<lparr>crypto := known crypto'\<rparr>, [(crypto', inp)])
      | _ \<Rightarrow>
          (case verifiers_some result inp rest of
             (b, r, t) \<Rightarrow> (b, r, (crypto', inp) # t)))"

definition verifyDetect ::
  "VerifyResult \<Rightarrow> VerifyInput \<Rightarrow> Verifier list \<Rightarrow> VerifyResult \<times> Attempt list"
where
  "verifyDetect result inp verifiers =
     (case verifiers_some result inp verifiers of
        (b, r, t) \<Rightarrow> (r\<lparr>isValid := b\<rparr>, t))"

text \<open>\<^verbatim>\<open>signature[0]\<close>: \<^verbatim>\<open>undefined\<close> on an empty array.\<close>

definition byte0 :: "u8a \<Rightarrow> 8 word option" where
  "byte0 s = (case s of [] \<Rightarrow> None | b # _ \<Rightarrow> Some b)"

definition verifyMultisig ::
  "verify_prims \<Rightarrow> VerifyResult \<Rightarrow> VerifyInput \<Rightarrow> (error + VerifyResult) \<times> Attempt list"
where
  "verifyMultisig p result inp =
     (let signature = i_signature inp in
      if (\<not> byte0 signature \<in> {Some 0, Some 1, Some 2} \<or> \<not> length signature \<in> {65, 66}) \<and>
         \<not> (byte0 signature = Some 3 \<and> length signature = MLDSA_SIGNATURE_LENGTH p + 1)
      then (Inl (UnknownCryptoType (byte0 signature)), [])
      else if byte0 signature = Some 3 \<and> length signature = MLDSA_SIGNATURE_LENGTH p + 1
      then
        (case verifyDetect result (inp\<lparr>i_signature := tl signature\<rparr>) [(mldsa, mldsaVerify p)] of
           (r, t) \<Rightarrow> (Inr r, t))
      else if length signature = 66
      then
        (case verifyDetect result (inp\<lparr>i_signature := tl signature\<rparr>) (VERIFIERS_ECDSA p) of
           (r, t) \<Rightarrow> (Inr r, t))
      else
        (case verifyDetect result (inp\<lparr>i_signature := tl signature\<rparr>) (VERIFIERS p) of
           (r1, t1) \<Rightarrow>
             (case (if \<not> isValid r1 then verifyDetect r1 inp (VERIFIERS_ECDSA p) else (r1, [])) of
                (r2, t2) \<Rightarrow>
                  (Inr (if \<not> isValid r2 then r2\<lparr>crypto := none\<rparr> else r2), t1 @ t2))))"

text \<open>\<^verbatim>\<open>getVerifyFn\<close> returns one of the two functions above.\<close>

datatype VerifyFn = VerifyMultisig | VerifyDetect

definition getVerifyFn :: "verify_prims \<Rightarrow> u8a \<Rightarrow> VerifyFn" where
  "getVerifyFn p signature =
     (if (byte0 signature \<in> {Some 0, Some 1, Some 2} \<and> length signature \<in> {65, 66}) \<or>
         (byte0 signature = Some 3 \<and> length signature = MLDSA_SIGNATURE_LENGTH p + 1)
      then VerifyMultisig
      else VerifyDetect)"

text \<open>
  Calling the selected function with \<^verbatim>\<open>(result, input)\<close>; \<^verbatim>\<open>verifyDetect\<close> then runs
  with its default verifiers \<^verbatim>\<open>[...VERIFIERS, ...VERIFIERS_ECDSA]\<close>.
\<close>

definition callVerifyFn ::
  "verify_prims \<Rightarrow> VerifyFn \<Rightarrow> VerifyResult \<Rightarrow> VerifyInput \<Rightarrow> (error + VerifyResult) \<times> Attempt list"
where
  "callVerifyFn p verifyFn result inp =
     (case verifyFn of
        VerifyMultisig \<Rightarrow> verifyMultisig p result inp
      | VerifyDetect \<Rightarrow>
          (case verifyDetect result inp (VERIFIERS p @ VERIFIERS_ECDSA p) of
             (r, t) \<Rightarrow> (Inr r, t)))"

text \<open>
  \<^verbatim>\<open>signatureVerify\<close>, on byte arrays (the conversion \<^verbatim>\<open>u8aToU8a\<close> of a string
  argument is left out: the arguments are the converted arrays).
\<close>

definition signatureVerify ::
  "verify_prims \<Rightarrow> u8a \<Rightarrow> u8a \<Rightarrow> u8a \<Rightarrow> (error + VerifyResult) \<times> Attempt list"
where
  "signatureVerify p message signature addressOrPublicKey =
     (let signatureU8a = signature in
      if \<not> length signatureU8a \<in>
           {64, 65, 66, MLDSA_SIGNATURE_LENGTH p, MLDSA_SIGNATURE_LENGTH p + 1}
      then (Inl (InvalidSignatureLength (length signatureU8a)), [])
      else
        (case decodeAddress p addressOrPublicKey of
           None \<Rightarrow> (Inl (CollaboratorError ''decodeAddress''), [])
         | Some publicKey \<Rightarrow>
             (let inp = \<lparr>i_message = message, i_publicKey = publicKey, i_signature = signatureU8a\<rparr>;
                  result = \<lparr>crypto = none, isValid = False,
                            isWrapped = u8aIsWrapped p message True, r_publicKey = publicKey\<rparr>;
                  isWrappedBytes = u8aIsWrapped p message False;
                  verifyFn = getVerifyFn p signatureU8a
              in
                (case callVerifyFn p verifyFn result inp of
                   (Inl e, t) \<Rightarrow> (Inl e, t)
                 | (Inr result1, t1) \<Rightarrow>
                     if crypto result1 \<noteq> none \<or> (isWrapped result1 \<and> \<not> isWrappedBytes)
                     then (Inr result1, t1)
                     else
                       (let inp' = inp\<lparr>i_message :=
                                     (if isWrappedBytes
                                      then u8aUnwrapBytes p message
                                      else u8aWrapBytes p message)\<rparr>
                        in
                          (case callVerifyFn p verifyFn result1 inp' of
                             (x, t2) \<Rightarrow> (x, t1 @ t2)))))))"

section \<open>The HDKD derivation engine (key/fromPath.ts)\<close>

text \<open>\<^verbatim>\<open>Keypair\<close>: \<^verbatim>\<open>{ publicKey, secretKey }\<close>, both present.\<close>

record Keypair =
  k_publicKey :: u8a
  k_secretKey :: u8a

text \<open>One step of a derivation path: a chain code and the hard/soft flag.\<close>

record DeriveJunction =
  chainCode :: u8a
  isHard :: bool

text \<open>A derivation step returns the derived keypair or throws (\<open>None\<close>).\<close>

type_synonym HdkdFn = "Keypair \<Rightarrow> DeriveJunction \<Rightarrow> Keypair option"

text \<open>The four step functions fromPath.ts imports; parameters of the model.\<close>

record hdkd_prims =
  keyHdkdEcdsa :: HdkdFn
  keyHdkdEd25519 :: HdkdFn
  keyHdkdSr25519 :: HdkdFn
  keyHdkdMldsa :: HdkdFn

text \<open>
  The table \<^verbatim>\<open>generators\<close>. A lookup \<^verbatim>\<open>generators[type]\<close> is \<^verbatim>\<open>undefined\<close> for a
  key that the object does not have, so the table is a partial map.
\<close>

definition generators :: "hdkd_prims \<Rightarrow> KeypairType \<rightharpoonup> HdkdFn" where
  "generators h =
     [ecdsa \<mapsto> keyHdkdEcdsa h,
      ed25519 \<mapsto> keyHdkdEd25519 h,
      ethereum \<mapsto> keyHdkdEcdsa h,
      mldsa \<mapsto> keyHdkdMldsa h,
      sr25519 \<mapsto> keyHdkdSr25519 h]"

text \<open>The loop \<^verbatim>\<open>for (const junction of path) result = keyHdkd(result, junction)\<close>.\<close>

fun keyFromPath_loop :: "HdkdFn \<Rightarrow> Keypair \<Rightarrow> DeriveJunction list \<Rightarrow> error + Keypair" where
  "keyFromPath_loop keyHdkd result [] = Inr result"
| "keyFromPath_loop keyHdkd result (junction # path) =
     (case keyHdkd result junction of
        None \<Rightarrow> Inl (CollaboratorError ''keyHdkd'')
      | Some result' \<Rightarrow> keyFromPath_loop keyHdkd result' path)"

definition keyFromPath ::
  "hdkd_prims \<Rightarrow> Keypair \<Rightarrow> DeriveJunction list \<Rightarrow> KeypairType \<Rightarrow> error + Keypair"
where
  "keyFromPath h pair path type =
     (case generators h type of
        None \<Rightarrow> Inl UnsupportedKeypairType
      | Some keyHdkd \<Rightarrow> keyFromPath_loop keyHdkd pair path)"

section \<open>The keypair entity (keyring pair/index.ts)\<close>

text \<open>\<^verbatim>\<open>PairInfo\<close>: \<^verbatim>\<open>{ publicKey; secretKey? }\<close>.\<close>

record PairInfo =
  pi_publicKey :: u8a
  pi_secretKey :: "u8a option"

type_synonym Meta = "string \<rightharpoonup> string"

text \<open>
  The functions pair/index.ts imports and calls, as parameters of the model. A
  function that may throw returns an option. \<open>keyring_hdkd\<close> holds the step functions
  behind the imported \<^verbatim>\<open>keyFromPath\<close>.
\<close>

record pair_prims =
  keyring_hdkd :: hdkd_prims
  u8aEmpty :: "u8a \<Rightarrow> bool"
  u8aToHex :: "u8a \<Rightarrow> string"
  blake2AsU8a :: "u8a \<Rightarrow> u8a"
  keccakAsU8a :: "u8a \<Rightarrow> u8a"
  secp256k1Expand :: "u8a \<Rightarrow> u8a option"
  secp256k1Compress :: "u8a \<Rightarrow> u8a option"
  ethereumEncode :: "u8a \<Rightarrow> string option"
  keyExtractPath :: "string \<Rightarrow> DeriveJunction list option"
  secp256k1FromSeed :: "u8a \<Rightarrow> Keypair option"
  ed25519FromSeed :: "u8a \<Rightarrow> Keypair option"
  mldsaPairFromSeed :: "u8a \<Rightarrow> Keypair option"
  sr25519FromSeed :: "u8a \<Rightarrow> Keypair option"
  secp256k1Sign :: "u8a \<Rightarrow> Keypair \<Rightarrow> HashType \<Rightarrow> u8a option"
  ed25519Sign :: "u8a \<Rightarrow> Keypair \<Rightarrow> u8a option"
  mldsaSign :: "u8a \<Rightarrow> Keypair \<Rightarrow> u8a option"
  sr25519Sign :: "u8a \<Rightarrow> Keypair \<Rightarrow> u8a option"
  decodePair :: "string option \<Rightarrow> u8a option \<Rightarrow> string list option \<Rightarrow> Keypair option"
  encodePair :: "PairInfo \<Rightarrow> string option \<Rightarrow> KeypairType \<Rightarrow> u8a option"
  pairToJson :: "KeypairType \<Rightarrow> string \<Rightarrow> Meta \<Rightarrow> u8a \<Rightarrow> bool \<Rightarrow> string"

text \<open>
  The state a pair closes over: the \<^verbatim>\<open>Setup\<close> (\<^verbatim>\<open>toSS58\<close>, \<^verbatim>\<open>type\<close>), which never
  changes, and the variables \<^verbatim>\<open>publicKey\<close>, \<^verbatim>\<open>secretKey\<close>, \<^verbatim>\<open>meta\<close>, \<^verbatim>\<open>encoded\<close>
  and \<^verbatim>\<open>encTypes\<close>, which the pair's methods assign. A method that assigns one of
  them returns the new state.
\<close>

record Pair =
  toSS58 :: "u8a \<Rightarrow> string option"
  ptype :: KeypairType
  publicKey :: u8a
  secretKey :: "u8a option"
  meta :: Meta
  encoded :: "u8a option"
  encTypes :: "string list option"

definition SIG_TYPE_NONE :: u8a where
  "SIG_TYPE_NONE = []"

fun TYPE_FROM_SEED :: "pair_prims \<Rightarrow> KeypairType \<Rightarrow> u8a \<Rightarrow> Keypair option" where
  "TYPE_FROM_SEED pp ecdsa = secp256k1FromSeed pp"
| "TYPE_FROM_SEED pp ed25519 = ed25519FromSeed pp"
| "TYPE_FROM_SEED pp ethereum = secp256k1FromSeed pp"
| "TYPE_FROM_SEED pp mldsa = mldsaPairFromSeed pp"
| "TYPE_FROM_SEED pp sr25519 = sr25519FromSeed pp"

fun TYPE_PREFIX :: "KeypairType \<Rightarrow> u8a" where
  "TYPE_PREFIX ecdsa = [2]"
| "TYPE_PREFIX ed25519 = [0]"
| "TYPE_PREFIX ethereum = [2]"
| "TYPE_PREFIX mldsa = [3]"
| "TYPE_PREFIX sr25519 = [1]"

fun TYPE_SIGNATURE :: "pair_prims \<Rightarrow> KeypairType \<Rightarrow> u8a \<Rightarrow> Keypair \<Rightarrow> u8a option" where
  "TYPE_SIGNATURE pp ecdsa = (\<lambda>m p. secp256k1Sign pp m p blake2)"
| "TYPE_SIGNATURE pp ed25519 = ed25519Sign pp"
| "TYPE_SIGNATURE pp ethereum = (\<lambda>m p. secp256k1Sign pp m p keccak)"
| "TYPE_SIGNATURE pp mldsa = mldsaSign pp"
| "TYPE_SIGNATURE pp sr25519 = sr25519Sign pp"

fun TYPE_ADDRESS :: "pair_prims \<Rightarrow> KeypairType \<Rightarrow> u8a \<Rightarrow> error + u8a" where
  "TYPE_ADDRESS pp ecdsa p = (if length p > 32 then Inr (blake2AsU8a pp p) else Inr p)"
| "TYPE_ADDRESS pp ed25519 p = Inr p"
| "TYPE_ADDRESS pp ethereum p =
     (if length p = 20 then Inr p
      else (case secp256k1Expand pp p of
              None \<Rightarrow> Inl (CollaboratorError ''secp256k1Expand'')
            | Some e \<Rightarrow> Inr (keccakAsU8a pp e)))"
| "TYPE_ADDRESS pp mldsa p = Inr (blake2AsU8a pp p)"
| "TYPE_ADDRESS pp sr25519 p = Inr p"

text \<open>\<^verbatim>\<open>!secretKey || u8aEmpty(secretKey)\<close>.\<close>

definition isLocked :: "pair_prims \<Rightarrow> u8a option \<Rightarrow> bool" where
  "isLocked pp secretKey' =
     (case secretKey' of None \<Rightarrow> True | Some k \<Rightarrow> u8aEmpty pp k)"

definition createPair ::
  "(u8a \<Rightarrow> string option) \<Rightarrow> KeypairType \<Rightarrow> PairInfo \<Rightarrow> Meta \<Rightarrow> u8a option \<Rightarrow>
   string list option \<Rightarrow> Pair"
where
  "createPair toSS58' type info meta' encoded' encTypes' =
     \<lparr>toSS58 = toSS58', ptype = type, publicKey = pi_publicKey info,
      secretKey = pi_secretKey info, meta = meta', encoded = encoded', encTypes = encTypes'\<rparr>"

text \<open>
  \<^verbatim>\<open>decodePkcs8(passphrase, userEncoded)\<close>; \<^verbatim>\<open>userEncoded || encoded\<close> is the cached
  container when no container is passed.
\<close>

definition decodePkcs8 :: "pair_prims \<Rightarrow> Pair \<Rightarrow> string option \<Rightarrow> u8a option \<Rightarrow> error + Pair" where
  "decodePkcs8 pp pr passphrase userEncoded =
     (case decodePair pp passphrase
             (case userEncoded of Some u \<Rightarrow> Some u | None \<Rightarrow> encoded pr) (encTypes pr) of
        None \<Rightarrow> Inl (CollaboratorError ''decodePair'')
      | Some decoded \<Rightarrow>
          if ptype pr = mldsa then
            if length (k_secretKey decoded) = 4896 \<and> length (k_publicKey decoded) = 2592
            then Inr (pr\<lparr>publicKey := k_publicKey decoded,
                         secretKey := Some (k_secretKey decoded)\<rparr>)
            else if length (k_secretKey decoded) = 32
            then
              (case TYPE_FROM_SEED pp (ptype pr) (k_secretKey decoded) of
                 None \<Rightarrow> Inl (CollaboratorError ''fromSeed'')
               | Some pair \<Rightarrow>
                   Inr (pr\<lparr>publicKey := k_publicKey pair, secretKey := Some (k_secretKey pair)\<rparr>))
            else Inl (InvalidMldsaKeySizes (length (k_secretKey decoded))
                        (length (k_publicKey decoded)))
          else
            if length (k_secretKey decoded) = 64
            then Inr (pr\<lparr>publicKey := k_publicKey decoded,
                         secretKey := Some (k_secretKey decoded)\<rparr>)
            else
              (case TYPE_FROM_SEED pp (ptype pr) (k_secretKey decoded) of
                 None \<Rightarrow> Inl (CollaboratorError ''fromSeed'')
               | Some pair \<Rightarrow>
                   Inr (pr\<lparr>publicKey := k_publicKey pair, secretKey := Some (k_secretKey pair)\<rparr>)))"


definition encodeAddress :: "pair_prims \<Rightarrow> Pair \<Rightarrow> error + string" where
  "encodeAddress pp pr =
     (case TYPE_ADDRESS pp (ptype pr) (publicKey pr) of
        Inl e \<Rightarrow> Inl e
      | Inr raw \<Rightarrow>
          (if ptype pr = ethereum
           then (case ethereumEncode pp raw of
                   None \<Rightarrow> Inl (CollaboratorError ''ethereumEncode'')
                 | Some a \<Rightarrow> Inr a)
           else (case toSS58 pr raw of
                   None \<Rightarrow> Inl (CollaboratorError ''toSS58'')
                 | Some a \<Rightarrow> Inr a)))"

text \<open>The getter \<^verbatim>\<open>address\<close>.\<close>

definition address :: "pair_prims \<Rightarrow> Pair \<Rightarrow> error + string" where
  "address pp pr = encodeAddress pp pr"

text \<open>
  \<^verbatim>\<open>derive(suri, meta)\<close>. The new pair is created with the metadata passed, or with
  the default \<^verbatim>\<open>{}\<close> of \<^verbatim>\<open>createPair\<close> when none is passed, and with no container.
  A secret key that is not locked is present; the \<open>None\<close> case of the inner match is
  therefore never taken.
\<close>

definition derive :: "pair_prims \<Rightarrow> Pair \<Rightarrow> string \<Rightarrow> Meta option \<Rightarrow> error + Pair" where
  "derive pp pr suri meta' =
     (if ptype pr = ethereum then Inl UnableToDerive
      else if isLocked pp (secretKey pr) then Inl CannotDeriveLocked
      else
        (case secretKey pr of
           None \<Rightarrow> Inl CannotDeriveLocked
         | Some sk \<Rightarrow>
             (case keyExtractPath pp suri of
                None \<Rightarrow> Inl (CollaboratorError ''keyExtractPath'')
              | Some path \<Rightarrow>
                  (case keyFromPath (keyring_hdkd pp)
                          \<lparr>k_publicKey = publicKey pr, k_secretKey = sk\<rparr> path (ptype pr) of
                     Inl e \<Rightarrow> Inl e
                   | Inr derived \<Rightarrow>
                       Inr (createPair (toSS58 pr) (ptype pr)
                              \<lparr>pi_publicKey = k_publicKey derived,
                               pi_secretKey = Some (k_secretKey derived)\<rparr>
                              (case meta' of None \<Rightarrow> Map.empty | Some m \<Rightarrow> m)
                              None None)))))"


text \<open>\<^verbatim>\<open>lock\<close>: \<^verbatim>\<open>secretKey = new Uint8Array()\<close>.\<close>

definition lock :: "Pair \<Rightarrow> Pair" where
  "lock pr = pr\<lparr>secretKey := Some []\<rparr>"

text \<open>\<^verbatim>\<open>setMeta\<close>: \<^verbatim>\<open>objectSpread({}, meta, additional)\<close>, later keys win.\<close>

definition setMeta :: "Pair \<Rightarrow> Meta \<Rightarrow> Pair" where
  "setMeta pr additional = pr\<lparr>meta := meta pr ++ additional\<rparr>"

text \<open>\<^verbatim>\<open>sign(message, options)\<close>; \<open>withType\<close> is \<^verbatim>\<open>options.withType\<close>.\<close>

definition sign :: "pair_prims \<Rightarrow> Pair \<Rightarrow> u8a \<Rightarrow> bool \<Rightarrow> error + u8a" where
  "sign pp pr message withType =
     (if isLocked pp (secretKey pr) then Inl CannotSignLocked
      else
        (case secretKey pr of
           None \<Rightarrow> Inl CannotSignLocked
         | Some sk \<Rightarrow>
             (case TYPE_SIGNATURE pp (ptype pr) message
                     \<lparr>k_publicKey = publicKey pr, k_secretKey = sk\<rparr> of
                None \<Rightarrow> Inl (CollaboratorError ''sign'')
              | Some s \<Rightarrow>
                  Inr ((if withType then TYPE_PREFIX (ptype pr) else SIG_TYPE_NONE) @ s))))"


definition unlock :: "pair_prims \<Rightarrow> Pair \<Rightarrow> string option \<Rightarrow> error + Pair" where
  "unlock pp pr passphrase = decodePkcs8 pp pr passphrase None"

text \<open>
  \<^verbatim>\<open>verify(message, signature, signerPublic)\<close>. For the lattice type the check is
  called inside \<^verbatim>\<open>try\<close>, and \<^verbatim>\<open>catch\<close> returns false. The attempts are those of the
  native checks reached.
\<close>

definition verify ::
  "verify_prims \<Rightarrow> pair_prims \<Rightarrow> Pair \<Rightarrow> u8a \<Rightarrow> u8a \<Rightarrow> u8a \<Rightarrow> (error + bool) \<times> Attempt list"
where
  "verify vp pp pr message signature signerPublic =
     (if ptype pr = mldsa
      then
        ((case mldsaVerify vp message signature signerPublic of
            Some b \<Rightarrow> Inr b
          | None \<Rightarrow> Inr False),
         [(mldsa, \<lparr>i_message = message, i_publicKey = signerPublic, i_signature = signature\<rparr>)])
      else
        (case TYPE_ADDRESS pp (ptype pr) signerPublic of
           Inl e \<Rightarrow> (Inl e, [])
         | Inr a \<Rightarrow>
             (case signatureVerify vp message signature a of
                (Inl e, t) \<Rightarrow> (Inl e, t)
              | (Inr r, t) \<Rightarrow> (Inr (isValid r), t))))"

section \<open>Vocabulary of the properties\<close>

text \<open>
  A verifier accepts an input when its check returns true (neither false nor an
  exception). An ordered trial over a list of verifiers attempts them in order, up to
  and including the first that accepts; that one is the winner.
\<close>

definition accepts :: "VerifyInput \<Rightarrow> Verifier \<Rightarrow> bool" where
  "accepts inp v = (snd v (i_message inp) (i_signature inp) (i_publicKey inp) = Some True)"

definition attempt :: "VerifyInput \<Rightarrow> Verifier \<Rightarrow> Attempt" where
  "attempt inp v = (fst v, inp)"

fun tried :: "Verifier list \<Rightarrow> VerifyInput \<Rightarrow> Attempt list" where
  "tried [] inp = []"
| "tried (v # vs) inp = attempt inp v # (if accepts inp v then [] else tried vs inp)"

definition winner :: "Verifier list \<Rightarrow> VerifyInput \<Rightarrow> KeypairType option" where
  "winner vs inp = map_option fst (find (accepts inp) vs)"

text \<open>
  The result of an ordered trial that started from result \<open>r\<close>: \<open>r\<close> itself when no
  verifier accepted, and \<open>r\<close> with the winner recorded and marked valid otherwise.
\<close>

definition outcome :: "VerifyResult \<Rightarrow> KeypairType option \<Rightarrow> VerifyResult" where
  "outcome r w = (case w of None \<Rightarrow> r | Some c \<Rightarrow> r\<lparr>crypto := known c, isValid := True\<rparr>)"

text \<open>
  The attempts open to a pass on a prefixed-classified signature \<open>sig\<close>: the lattice
  check on the stripped signature when the first byte is 3 and the length is the
  lattice length plus one; otherwise, at length 66, the two secp256k1 checks on the
  stripped signature; otherwise (length 65) the three checks of \<open>VERIFIERS\<close> on the
  stripped signature and the two secp256k1 checks on the full signature.
\<close>

definition prefixed_attempt :: "verify_prims \<Rightarrow> u8a \<Rightarrow> Attempt \<Rightarrow> bool" where
  "prefixed_attempt p sig a =
     (if byte0 sig = Some 3 \<and> length sig = MLDSA_SIGNATURE_LENGTH p + 1
      then fst a = mldsa \<and> i_signature (snd a) = tl sig
      else if length sig = 66
      then fst a \<in> {ecdsa, ethereum} \<and> i_signature (snd a) = tl sig
      else (fst a \<in> {ed25519, mldsa, sr25519} \<and> i_signature (snd a) = tl sig) \<or>
           (fst a \<in> {ecdsa, ethereum} \<and> i_signature (snd a) = sig))"

text \<open>
  The bare path in the words of the specification, section 4.4 step 5: the three
  64-byte families are tried against the signature with its first byte stripped, then
  the two secp256k1 variants against the full signature; the first success is recorded,
  and the algorithm is ``none'' when nothing succeeds. It is compared below with what
  \<open>signatureVerify\<close> does on a bare signature.
\<close>

definition bare_path_as_specified :: "verify_prims \<Rightarrow> VerifyInput \<Rightarrow> Crypto \<times> Attempt list" where
  "bare_path_as_specified p inp =
     (let stripped = inp\<lparr>i_signature := tl (i_signature inp)\<rparr> in
      case winner (VERIFIERS p) stripped of
        Some c \<Rightarrow> (known c, tried (VERIFIERS p) stripped)
      | None \<Rightarrow>
          (case winner (VERIFIERS_ECDSA p) inp of
             Some c \<Rightarrow> (known c, tried (VERIFIERS p) stripped @ tried (VERIFIERS_ECDSA p) inp)
           | None \<Rightarrow> (none, tried (VERIFIERS p) stripped @ tried (VERIFIERS_ECDSA p) inp)))"

text \<open>
  The methods of a pair that assign its state without decoding a container: \<open>lock\<close>
  and \<open>setMeta\<close>. (\<open>sign\<close>, \<open>verify\<close>, \<open>derive\<close> and the getters assign nothing.)
\<close>

datatype PairUpdate = Lock | SetMeta Meta

fun applyUpdate :: "Pair \<Rightarrow> PairUpdate \<Rightarrow> Pair" where
  "applyUpdate pr Lock = lock pr"
| "applyUpdate pr (SetMeta additional) = setMeta pr additional"

subsection \<open>Concrete collaborators for the examples\<close>

text \<open>
  An instance of the imported functions, built from one table of checks: the lattice
  signature length is 4627 (verify.ts, 64, gives 4628 for the prefixed form), an
  address decodes to itself, and a message counts as wrapped when it starts with the
  byte 60.
\<close>

definition stub_checks :: "(KeypairType \<Rightarrow> VerifyPrim) \<Rightarrow> verify_prims" where
  "stub_checks chk =
     \<lparr>MLDSA_SIGNATURE_LENGTH = 4627,
      ed25519Verify = chk ed25519,
      mldsaVerify = chk mldsa,
      sr25519Verify = chk sr25519,
      secp256k1Verify = (\<lambda>m s k h. chk (case h of blake2 \<Rightarrow> ecdsa | keccak \<Rightarrow> ethereum) m s k),
      decodeAddress = Some,
      u8aIsWrapped = (\<lambda>m withEthereum. take 1 m = [60]),
      u8aUnwrapBytes = tl,
      u8aWrapBytes = (\<lambda>m. 60 # m)\<rparr>"

definition reject_all :: "KeypairType \<Rightarrow> VerifyPrim" where
  "reject_all c m s k = Some False"

definition accept_only :: "KeypairType \<Rightarrow> KeypairType \<Rightarrow> VerifyPrim" where
  "accept_only c0 c m s k = Some (c = c0)"

definition accept_ed25519_64 :: "KeypairType \<Rightarrow> VerifyPrim" where
  "accept_ed25519_64 c m s k = Some (c = ed25519 \<and> length s = 64)"

text \<open>A check that accepts for sr25519 when the message starts with the byte 60.\<close>

definition accept_wrapped_sr25519 :: "KeypairType \<Rightarrow> VerifyPrim" where
  "accept_wrapped_sr25519 c m s k = Some (c = sr25519 \<and> take 1 m = [60])"

text \<open>A check that always throws.\<close>

definition throw_all :: "KeypairType \<Rightarrow> VerifyPrim" where
  "throw_all c m s k = None"

text \<open>
  An instance of the functions the pair imports. Every derivation step prepends the
  chain code to both keys; a seed \<open>s\<close> expands to the public key \<open>s\<close> and the secret
  key \<open>s @ s\<close>; a byte array is empty when all its bytes are zero; a container
  decodes, under the passphrase \<open>pw\<close> only, to itself as the secret key and its first 32
  bytes as the public key; encoding returns the secret key and throws without one;
  the only secret URI that parses is the empty one, to the empty path.
\<close>

definition stub_step :: HdkdFn where
  "stub_step k j =
     Some \<lparr>k_publicKey = chainCode j @ k_publicKey k, k_secretKey = chainCode j @ k_secretKey k\<rparr>"

definition stub_hdkd :: hdkd_prims where
  "stub_hdkd =
     \<lparr>keyHdkdEcdsa = stub_step, keyHdkdEd25519 = stub_step,
      keyHdkdSr25519 = stub_step, keyHdkdMldsa = stub_step\<rparr>"

definition stub_seed :: "u8a \<Rightarrow> Keypair option" where
  "stub_seed seed = Some \<lparr>k_publicKey = seed, k_secretKey = seed @ seed\<rparr>"

definition stub_decodePair :: "string option \<Rightarrow> u8a option \<Rightarrow> string list option \<Rightarrow> Keypair option" where
  "stub_decodePair passphrase container types =
     (case container of
        None \<Rightarrow> None
      | Some e \<Rightarrow>
          if passphrase = Some ''pw''
          then Some \<lparr>k_publicKey = take 32 e, k_secretKey = e\<rparr>
          else None)"

definition stub_encodePair :: "PairInfo \<Rightarrow> string option \<Rightarrow> KeypairType \<Rightarrow> u8a option" where
  "stub_encodePair info passphrase type =
     (case pi_secretKey info of None \<Rightarrow> None | Some sk \<Rightarrow> Some sk)"

definition stub_pair_prims :: pair_prims where
  "stub_pair_prims =
     \<lparr>keyring_hdkd = stub_hdkd,
      u8aEmpty = list_all (\<lambda>b. b = 0),
      u8aToHex = (\<lambda>v. ''0x''),
      blake2AsU8a = take 32,
      keccakAsU8a = take 32,
      secp256k1Expand = Some,
      secp256k1Compress = Some,
      ethereumEncode = (\<lambda>raw. Some ''0x''),
      keyExtractPath = (\<lambda>suri. if suri = [] then Some [] else None),
      secp256k1FromSeed = stub_seed,
      ed25519FromSeed = stub_seed,
      mldsaPairFromSeed = stub_seed,
      sr25519FromSeed = stub_seed,
      secp256k1Sign = (\<lambda>m k h. Some (k_secretKey k @ m)),
      ed25519Sign = (\<lambda>m k. Some (k_secretKey k @ m)),
      mldsaSign = (\<lambda>m k. Some (k_secretKey k @ m)),
      sr25519Sign = (\<lambda>m k. Some (k_secretKey k @ m)),
      decodePair = stub_decodePair,
      encodePair = stub_encodePair,
      pairToJson = (\<lambda>t a m e c. a)\<rparr>"

text \<open>A pair of the given type, secret key and cached container.\<close>

definition stub_pair :: "KeypairType \<Rightarrow> u8a option \<Rightarrow> u8a option \<Rightarrow> Pair" where
  "stub_pair t sk container =
     \<lparr>toSS58 = (\<lambda>raw. Some ''5abc''), ptype = t, publicKey = [1, 2, 3], secretKey = sk,
      meta = Map.empty, encoded = container, encTypes = None\<rparr>"

section \<open>Properties of the verification engine\<close>

subsection \<open>The ordered trial\<close>

lemma verifiers_some_tried:
  "verifiers_some r inp vs =
     (case winner vs inp of
        None \<Rightarrow> (False, r, tried vs inp)
      | Some c \<Rightarrow> (True, r\<lparr>crypto := known c\<rparr>, tried vs inp))"
proof (induction vs)
  case Nil
  show ?case by (simp add: winner_def)
next
  case (Cons v vs)
  obtain c f where v: "v = (c, f)" by (cases v)
  have att: "attempt inp (c, f) = (c, inp)" by (simp add: attempt_def)
  show ?case
  proof (cases "accepts inp v")
    case True
    then show ?thesis by (simp add: v accepts_def att winner_def)
  next
    case False
    then have "f (i_message inp) (i_signature inp) (i_publicKey inp) \<noteq> Some True"
      by (simp add: v accepts_def)
    moreover have "winner (v # vs) inp = winner vs inp"
      using False by (simp add: winner_def)
    ultimately show ?thesis using False Cons.IH att
      by (cases "f (i_message inp) (i_signature inp) (i_publicKey inp)")
         (auto simp: v split: option.splits bool.splits)
  qed
qed

lemma verifyDetect_tried:
  "verifyDetect r inp vs =
     (r\<lparr>crypto := (case winner vs inp of None \<Rightarrow> crypto r | Some c \<Rightarrow> known c),
        isValid := (winner vs inp \<noteq> None)\<rparr>, tried vs inp)"
  by (simp add: verifyDetect_def verifiers_some_tried split: option.splits)

subsection \<open>Signature length\<close>

text \<open>
  C4: for every input whose signature length is not one of 64, 65, 66, the lattice
  signature length, or that length plus one, \<open>signatureVerify\<close> throws the length error
  and no check has been attempted (the list of attempts is empty). A signature of 67
  bytes is rejected this way whenever the lattice signature length is neither 66 nor
  67 (the source gives 4628 for the lattice length plus one).
\<close>

theorem signatureVerify_rejects_length:
  "(length sig \<notin> {64, 65, 66, MLDSA_SIGNATURE_LENGTH p, MLDSA_SIGNATURE_LENGTH p + 1} \<longrightarrow>
      signatureVerify p msg sig addr = (Inl (InvalidSignatureLength (length sig)), [])) \<and>
   (length sig = 67 \<and> MLDSA_SIGNATURE_LENGTH p \<notin> {66, 67} \<longrightarrow>
      signatureVerify p msg sig addr = (Inl (InvalidSignatureLength 67), []))"
  by (simp add: signatureVerify_def)

theorem signatureVerify_rejects_length_witness:
  "length (replicate 67 (0::8 word)) \<notin>
     {64, 65, 66, MLDSA_SIGNATURE_LENGTH (stub_checks reject_all),
      MLDSA_SIGNATURE_LENGTH (stub_checks reject_all) + 1} \<and>
   length (replicate 67 (0::8 word)) = 67 \<and>
   MLDSA_SIGNATURE_LENGTH (stub_checks reject_all) \<notin> {66, 67} \<and>
   signatureVerify (stub_checks reject_all) [] (replicate 67 0) [] =
     (Inl (InvalidSignatureLength 67), [])"
  using signatureVerify_rejects_length [of "replicate 67 0" "stub_checks reject_all" "[]" "[]"]
  by (simp add: stub_checks_def)

subsection \<open>One pass\<close>

lemma tried_sound:
  "a \<in> set (tried vs inp) \<Longrightarrow> snd a = inp \<and> fst a \<in> fst ` set vs"
  by (induction vs) (auto simp: attempt_def split: if_splits)

lemma winner_tried:
  "winner vs inp = Some c \<Longrightarrow> (c, inp) \<in> set (tried vs inp)"
  by (induction vs) (auto simp: winner_def attempt_def split: if_splits)

lemma verifyDetect_outcome:
  "isValid r = False \<Longrightarrow> verifyDetect r inp vs = (outcome r (winner vs inp), tried vs inp)"
  by (cases "winner vs inp") (simp_all add: verifyDetect_tried outcome_def)

lemma getVerifyFn_cases:
  "getVerifyFn p sig = VerifyMultisig \<longleftrightarrow>
     (byte0 sig \<in> {Some 0, Some 1, Some 2} \<and> length sig \<in> {65, 66}) \<or>
     (byte0 sig = Some 3 \<and> length sig = MLDSA_SIGNATURE_LENGTH p + 1)"
  by (simp add: getVerifyFn_def)

lemma callVerifyFn_detect:
  assumes "isValid r = False"
  shows "callVerifyFn p VerifyDetect r inp =
           (Inr (outcome r (winner (VERIFIERS p @ VERIFIERS_ECDSA p) inp)),
            tried (VERIFIERS p @ VERIFIERS_ECDSA p) inp)"
  using assms by (simp add: callVerifyFn_def verifyDetect_outcome)

lemma verifyMultisig_lattice:
  assumes "byte0 (i_signature inp) = Some 3"
      and "length (i_signature inp) = MLDSA_SIGNATURE_LENGTH p + 1"
      and "isValid r = False"
  shows "verifyMultisig p r inp =
           (Inr (outcome r (winner [(mldsa, mldsaVerify p)] (inp\<lparr>i_signature := tl (i_signature inp)\<rparr>))),
            tried [(mldsa, mldsaVerify p)] (inp\<lparr>i_signature := tl (i_signature inp)\<rparr>))"
  using assms by (simp add: verifyMultisig_def Let_def verifyDetect_outcome)

lemma verifyMultisig_66:
  assumes "byte0 (i_signature inp) \<in> {Some 0, Some 1, Some 2}"
      and "length (i_signature inp) = 66"
      and "isValid r = False"
  shows "verifyMultisig p r inp =
           (Inr (outcome r (winner (VERIFIERS_ECDSA p) (inp\<lparr>i_signature := tl (i_signature inp)\<rparr>))),
            tried (VERIFIERS_ECDSA p) (inp\<lparr>i_signature := tl (i_signature inp)\<rparr>))"
proof -
  have "byte0 (i_signature inp) \<noteq> Some 3" using assms(1) by auto
  then show ?thesis using assms
    by (simp add: verifyMultisig_def Let_def verifyDetect_outcome)
qed

lemma verifyMultisig_65:
  assumes "byte0 (i_signature inp) \<in> {Some 0, Some 1, Some 2}"
      and "length (i_signature inp) = 65"
      and "isValid r = False" and "crypto r = none"
  shows "verifyMultisig p r inp =
           (case winner (VERIFIERS p) (inp\<lparr>i_signature := tl (i_signature inp)\<rparr>) of
              Some c \<Rightarrow>
                (Inr (r\<lparr>crypto := known c, isValid := True\<rparr>),
                 tried (VERIFIERS p) (inp\<lparr>i_signature := tl (i_signature inp)\<rparr>))
            | None \<Rightarrow>
                (Inr (outcome r (winner (VERIFIERS_ECDSA p) inp)),
                 tried (VERIFIERS p) (inp\<lparr>i_signature := tl (i_signature inp)\<rparr>) @
                 tried (VERIFIERS_ECDSA p) inp))"
proof -
  have n3: "byte0 (i_signature inp) \<noteq> Some 3" using assms(1) by auto
  show ?thesis
  proof (cases "winner (VERIFIERS p) (inp\<lparr>i_signature := tl (i_signature inp)\<rparr>)")
    case None
    then show ?thesis using assms n3
      by (cases "winner (VERIFIERS_ECDSA p) inp")
         (simp_all add: verifyMultisig_def Let_def verifyDetect_outcome outcome_def)
  next
    case (Some c)
    then show ?thesis using assms n3
      by (simp add: verifyMultisig_def Let_def verifyDetect_outcome outcome_def)
  qed
qed

lemma prefixed_length:
  "getVerifyFn p sig = VerifyMultisig \<Longrightarrow>
   length sig \<in> {64, 65, 66, MLDSA_SIGNATURE_LENGTH p, MLDSA_SIGNATURE_LENGTH p + 1}"
  by (auto simp: getVerifyFn_cases)

lemma multisig_pass:
  assumes pre: "getVerifyFn p sig = VerifyMultisig"
      and r: "isValid r = False" "crypto r = none"
  shows "\<exists>r1 t1. callVerifyFn p VerifyMultisig r
                    \<lparr>i_message = m, i_publicKey = pk, i_signature = sig\<rparr> = (Inr r1, t1) \<and>
           (r1 = r \<or> (\<exists>c. r1 = r\<lparr>crypto := known c, isValid := True\<rparr> \<and> c \<in> fst ` set t1)) \<and>
           (\<forall>a \<in> set t1. i_message (snd a) = m \<and> i_publicKey (snd a) = pk \<and>
                           prefixed_attempt p sig a)"
proof -
  let ?i = "\<lparr>i_message = m, i_publicKey = pk, i_signature = sig\<rparr>"
  let ?s = "\<lparr>i_message = m, i_publicKey = pk, i_signature = tl sig\<rparr>"
  have s: "?i\<lparr>i_signature := tl (i_signature ?i)\<rparr> = ?s" by simp
  have sg: "i_signature ?i = sig" by simp
  have out: "outcome r (winner vs i) = r \<or>
      (\<exists>c. outcome r (winner vs i) = r\<lparr>crypto := known c, isValid := True\<rparr> \<and>
           c \<in> fst ` set (tried vs i))" for vs i
  proof (cases "winner vs i")
    case None
    then show ?thesis by (simp add: outcome_def)
  next
    case (Some c)
    have "fst (c, i) \<in> fst ` set (tried vs i)"
      using winner_tried [OF Some] by (rule imageI)
    then show ?thesis using Some by (auto simp: outcome_def)
  qed
  consider (lat) "byte0 sig = Some 3" "length sig = MLDSA_SIGNATURE_LENGTH p + 1"
    | (l66) "\<not> (byte0 sig = Some 3 \<and> length sig = MLDSA_SIGNATURE_LENGTH p + 1)"
            "byte0 sig \<in> {Some 0, Some 1, Some 2}" "length sig = 66"
    | (l65) "\<not> (byte0 sig = Some 3 \<and> length sig = MLDSA_SIGNATURE_LENGTH p + 1)"
            "byte0 sig \<in> {Some 0, Some 1, Some 2}" "length sig = 65"
    using pre by (auto simp: getVerifyFn_cases)
  then show ?thesis
  proof cases
    case lat
    have "callVerifyFn p VerifyMultisig r ?i =
            (Inr (outcome r (winner [(mldsa, mldsaVerify p)] ?s)), tried [(mldsa, mldsaVerify p)] ?s)"
      using verifyMultisig_lattice [of ?i p r] lat r by (simp add: callVerifyFn_def)
    moreover have "\<forall>a \<in> set (tried [(mldsa, mldsaVerify p)] ?s). snd a = ?s \<and> fst a = mldsa"
      using tried_sound [of _ "[(mldsa, mldsaVerify p)]" ?s] by auto
    ultimately show ?thesis using lat out [of "[(mldsa, mldsaVerify p)]" ?s]
      by (auto simp: prefixed_attempt_def)
  next
    case l66
    have "callVerifyFn p VerifyMultisig r ?i =
            (Inr (outcome r (winner (VERIFIERS_ECDSA p) ?s)), tried (VERIFIERS_ECDSA p) ?s)"
      using verifyMultisig_66 [of ?i r p] l66 r by (simp add: callVerifyFn_def)
    moreover have "\<forall>a \<in> set (tried (VERIFIERS_ECDSA p) ?s). snd a = ?s \<and> fst a \<in> {ecdsa, ethereum}"
      using tried_sound [of _ "VERIFIERS_ECDSA p" ?s] by (auto simp: VERIFIERS_ECDSA_def)
    ultimately show ?thesis using l66 out [of "VERIFIERS_ECDSA p" ?s]
      by (auto simp: prefixed_attempt_def)
  next
    case l65
    have n66: "length sig \<noteq> 66" using l65 by simp
    have a1: "\<forall>a \<in> set (tried (VERIFIERS p) ?s). snd a = ?s \<and> fst a \<in> {ed25519, mldsa, sr25519}"
      using tried_sound [of _ "VERIFIERS p" ?s] by (auto simp: VERIFIERS_def)
    have a2: "\<forall>a \<in> set (tried (VERIFIERS_ECDSA p) ?i). snd a = ?i \<and> fst a \<in> {ecdsa, ethereum}"
      using tried_sound [of _ "VERIFIERS_ECDSA p" ?i] by (auto simp: VERIFIERS_ECDSA_def)
    show ?thesis
    proof (cases "winner (VERIFIERS p) ?s")
      case (Some c)
      have "callVerifyFn p VerifyMultisig r ?i =
              (Inr (r\<lparr>crypto := known c, isValid := True\<rparr>), tried (VERIFIERS p) ?s)"
        using verifyMultisig_65 [of ?i r p] l65 r Some by (simp add: callVerifyFn_def)
      moreover have "fst (c, ?s) \<in> fst ` set (tried (VERIFIERS p) ?s)"
        using winner_tried [OF Some] by (rule imageI)
      ultimately show ?thesis using l65 n66 a1 by (auto simp: prefixed_attempt_def)
    next
      case None
      have "callVerifyFn p VerifyMultisig r ?i =
              (Inr (outcome r (winner (VERIFIERS_ECDSA p) ?i)),
               tried (VERIFIERS p) ?s @ tried (VERIFIERS_ECDSA p) ?i)"
        using verifyMultisig_65 [of ?i r p] l65 r None by (simp add: callVerifyFn_def)
      then show ?thesis using l65 n66 a1 a2 out [of "VERIFIERS_ECDSA p" ?i]
        by (auto simp: prefixed_attempt_def)
    qed
  qed
qed

lemma multisig_pass_exact:
  assumes pre: "getVerifyFn p sig = VerifyMultisig"
      and r: "isValid r = False" "crypto r = none"
  shows "callVerifyFn p VerifyMultisig r \<lparr>i_message = m, i_publicKey = pk, i_signature = sig\<rparr> =
           (if byte0 sig = Some 3 \<and> length sig = MLDSA_SIGNATURE_LENGTH p + 1
            then (Inr (outcome r (winner [(mldsa, mldsaVerify p)]
                                   \<lparr>i_message = m, i_publicKey = pk, i_signature = tl sig\<rparr>)),
                  tried [(mldsa, mldsaVerify p)]
                    \<lparr>i_message = m, i_publicKey = pk, i_signature = tl sig\<rparr>)
            else if length sig = 66
            then (Inr (outcome r (winner (VERIFIERS_ECDSA p)
                                   \<lparr>i_message = m, i_publicKey = pk, i_signature = tl sig\<rparr>)),
                  tried (VERIFIERS_ECDSA p)
                    \<lparr>i_message = m, i_publicKey = pk, i_signature = tl sig\<rparr>)
            else
              (case winner (VERIFIERS p)
                      \<lparr>i_message = m, i_publicKey = pk, i_signature = tl sig\<rparr> of
                 Some c \<Rightarrow>
                   (Inr (outcome r (Some c)),
                    tried (VERIFIERS p) \<lparr>i_message = m, i_publicKey = pk, i_signature = tl sig\<rparr>)
               | None \<Rightarrow>
                   (Inr (outcome r (winner (VERIFIERS_ECDSA p)
                                     \<lparr>i_message = m, i_publicKey = pk, i_signature = sig\<rparr>)),
                    tried (VERIFIERS p) \<lparr>i_message = m, i_publicKey = pk, i_signature = tl sig\<rparr> @
                    tried (VERIFIERS_ECDSA p)
                      \<lparr>i_message = m, i_publicKey = pk, i_signature = sig\<rparr>)))"
proof -
  let ?i = "\<lparr>i_message = m, i_publicKey = pk, i_signature = sig\<rparr>"
  let ?s = "\<lparr>i_message = m, i_publicKey = pk, i_signature = tl sig\<rparr>"
  consider (lat) "byte0 sig = Some 3" "length sig = MLDSA_SIGNATURE_LENGTH p + 1"
    | (l66) "\<not> (byte0 sig = Some 3 \<and> length sig = MLDSA_SIGNATURE_LENGTH p + 1)"
            "byte0 sig \<in> {Some 0, Some 1, Some 2}" "length sig = 66"
    | (l65) "\<not> (byte0 sig = Some 3 \<and> length sig = MLDSA_SIGNATURE_LENGTH p + 1)"
            "byte0 sig \<in> {Some 0, Some 1, Some 2}" "length sig = 65"
    using pre by (auto simp: getVerifyFn_cases)
  then show ?thesis
  proof cases
    case lat
    have c: "(byte0 sig = Some 3 \<and> length sig = MLDSA_SIGNATURE_LENGTH p + 1) = True"
      using lat by simp
    show ?thesis unfolding c if_True
      using verifyMultisig_lattice [of ?i p r] lat r by (simp add: callVerifyFn_def)
  next
    case l66
    have c: "(byte0 sig = Some 3 \<and> length sig = MLDSA_SIGNATURE_LENGTH p + 1) = False"
      "(length sig = 66) = True"
      using l66 by simp_all
    show ?thesis unfolding c if_True if_False
      using verifyMultisig_66 [of ?i r p] l66 r by (simp add: callVerifyFn_def)
  next
    case l65
    have c: "(byte0 sig = Some 3 \<and> length sig = MLDSA_SIGNATURE_LENGTH p + 1) = False"
      "(length sig = 66) = False"
      using l65 by simp_all
    show ?thesis unfolding c if_False
      using verifyMultisig_65 [of ?i r p] l65 r
      by (simp add: callVerifyFn_def outcome_def split: option.splits)
  qed
qed

lemma pass_outcome:
  assumes r: "isValid r = False" "crypto r = none"
  shows "\<exists>r1 t1. callVerifyFn p (getVerifyFn p sig) r
                    \<lparr>i_message = m, i_publicKey = pk, i_signature = sig\<rparr> = (Inr r1, t1) \<and>
           (r1 = r \<or> (\<exists>c. r1 = r\<lparr>crypto := known c, isValid := True\<rparr> \<and> c \<in> fst ` set t1))"
proof (cases "getVerifyFn p sig")
  case VerifyMultisig
  then show ?thesis using multisig_pass [OF VerifyMultisig r, of m pk] by auto
next
  case VerifyDetect
  let ?vs = "VERIFIERS p @ VERIFIERS_ECDSA p"
  let ?i = "\<lparr>i_message = m, i_publicKey = pk, i_signature = sig\<rparr>"
  have eq: "callVerifyFn p VerifyDetect r ?i = (Inr (outcome r (winner ?vs ?i)), tried ?vs ?i)"
    using r by (simp add: callVerifyFn_detect)
  show ?thesis
  proof (cases "winner ?vs ?i")
    case None
    then show ?thesis using eq VerifyDetect by (simp add: outcome_def)
  next
    case (Some c)
    have "fst (c, ?i) \<in> fst ` set (tried ?vs ?i)"
      using winner_tried [OF Some] by (rule imageI)
    then show ?thesis using eq VerifyDetect Some by (auto simp: outcome_def)
  qed
qed

lemma signatureVerify_unfold:
  assumes len: "length sig \<in> {64, 65, 66, MLDSA_SIGNATURE_LENGTH p, MLDSA_SIGNATURE_LENGTH p + 1}"
      and dec: "decodeAddress p addr = Some pk"
      and p1: "callVerifyFn p (getVerifyFn p sig)
                 \<lparr>crypto = none, isValid = False, isWrapped = u8aIsWrapped p msg True,
                  r_publicKey = pk\<rparr>
                 \<lparr>i_message = msg, i_publicKey = pk, i_signature = sig\<rparr> = (Inr r1, t1)"
  shows "signatureVerify p msg sig addr =
      (if crypto r1 \<noteq> none \<or> (isWrapped r1 \<and> \<not> u8aIsWrapped p msg False)
       then (Inr r1, t1)
       else (case callVerifyFn p (getVerifyFn p sig) r1
                    \<lparr>i_message = (if u8aIsWrapped p msg False then u8aUnwrapBytes p msg
                                  else u8aWrapBytes p msg),
                     i_publicKey = pk, i_signature = sig\<rparr> of
               (x, t2) \<Rightarrow> (x, t1 @ t2)))"
proof -
  have "(\<not> length sig \<in> {64, 65, 66, MLDSA_SIGNATURE_LENGTH p, MLDSA_SIGNATURE_LENGTH p + 1}) = False"
    using len by blast
  then show ?thesis
    unfolding signatureVerify_def Let_def using dec p1
    by (simp only: if_False option.case prod.case sum.case VerifyInput.simps)
qed

subsection \<open>Two passes\<close>

text \<open>
  C5: \<open>signatureVerify\<close> performs at most two passes. A pass is one call of the
  function selected by \<open>getVerifyFn\<close>, started from the fresh result \<open>r0\<close>; it never
  throws, and it ends valid exactly when it has recorded an algorithm. If the first
  pass is valid its result and its attempts are returned as they are. If it is not and
  the message is wrapped in the Ethereum way only (wrapped with, but not without, the
  Ethereum form), the invalid result of the first pass is returned, again with no second
  pass. Otherwise the result is that of one more pass on the message with its wrapping
  toggled, and the attempts are those of the first pass followed by those of the second.
\<close>

theorem signatureVerify_two_passes:
  assumes len: "length sig \<in> {64, 65, 66, MLDSA_SIGNATURE_LENGTH p, MLDSA_SIGNATURE_LENGTH p + 1}"
      and dec: "decodeAddress p addr = Some pk"
      and r0: "r0 = \<lparr>crypto = none, isValid = False, isWrapped = u8aIsWrapped p msg True,
                      r_publicKey = pk\<rparr>"
      and tg: "toggled = (if u8aIsWrapped p msg False then u8aUnwrapBytes p msg
                          else u8aWrapBytes p msg)"
  shows "\<exists>r1 t1.
           callVerifyFn p (getVerifyFn p sig) r0
             \<lparr>i_message = msg, i_publicKey = pk, i_signature = sig\<rparr> = (Inr r1, t1) \<and>
           (isValid r1 \<longleftrightarrow> crypto r1 \<noteq> none) \<and>
           (if isValid r1 \<or> (u8aIsWrapped p msg True \<and> \<not> u8aIsWrapped p msg False)
            then signatureVerify p msg sig addr = (Inr r1, t1)
            else \<exists>r2 t2.
                   callVerifyFn p (getVerifyFn p sig) r0
                     \<lparr>i_message = toggled, i_publicKey = pk, i_signature = sig\<rparr> = (Inr r2, t2) \<and>
                   (isValid r2 \<longleftrightarrow> crypto r2 \<noteq> none) \<and>
                   signatureVerify p msg sig addr = (Inr r2, t1 @ t2))"
proof -
  let ?i1 = "\<lparr>i_message = msg, i_publicKey = pk, i_signature = sig\<rparr>"
  let ?i2 = "\<lparr>i_message = toggled, i_publicKey = pk, i_signature = sig\<rparr>"
  have r0': "isValid r0 = False" "crypto r0 = none" "isWrapped r0 = u8aIsWrapped p msg True"
    by (simp_all add: r0)
  obtain r1 t1 where p1: "callVerifyFn p (getVerifyFn p sig) r0 ?i1 = (Inr r1, t1)"
    and o1: "r1 = r0 \<or> (\<exists>c. r1 = r0\<lparr>crypto := known c, isValid := True\<rparr> \<and> c \<in> fst ` set t1)"
    using pass_outcome [OF r0'(1,2), of p sig msg pk] by auto
  obtain r2 t2 where p2: "callVerifyFn p (getVerifyFn p sig) r0 ?i2 = (Inr r2, t2)"
    and o2: "r2 = r0 \<or> (\<exists>c. r2 = r0\<lparr>crypto := known c, isValid := True\<rparr> \<and> c \<in> fst ` set t2)"
    using pass_outcome [OF r0'(1,2), of p sig toggled pk] by auto
  have v1: "isValid r1 \<longleftrightarrow> crypto r1 \<noteq> none" using o1 r0' by auto
  have v2: "isValid r2 \<longleftrightarrow> crypto r2 \<noteq> none" using o2 r0' by auto
  have w1: "isWrapped r1 = u8aIsWrapped p msg True" using o1 r0' by auto
  have unf: "signatureVerify p msg sig addr =
      (if crypto r1 \<noteq> none \<or> (isWrapped r1 \<and> \<not> u8aIsWrapped p msg False)
       then (Inr r1, t1)
       else (case callVerifyFn p (getVerifyFn p sig) r1 ?i2 of (x, t2) \<Rightarrow> (x, t1 @ t2)))"
    using signatureVerify_unfold [OF len dec p1 [unfolded r0]] by (simp add: tg)
  show ?thesis
  proof (cases "isValid r1 \<or> (u8aIsWrapped p msg True \<and> \<not> u8aIsWrapped p msg False)")
    case True
    then show ?thesis using p1 v1 w1 unf by auto
  next
    case False
    then have "r1 = r0" using o1 by auto
    then show ?thesis using False p1 p2 v1 v2 w1 unf by auto
  qed
qed

theorem signatureVerify_two_passes_witness:
  "length (replicate 64 (0::8 word)) \<in>
     {64, 65, 66, MLDSA_SIGNATURE_LENGTH (stub_checks accept_wrapped_sr25519),
      MLDSA_SIGNATURE_LENGTH (stub_checks accept_wrapped_sr25519) + 1} \<and>
   decodeAddress (stub_checks accept_wrapped_sr25519) [] = Some [] \<and>
   signatureVerify (stub_checks accept_wrapped_sr25519) [1] (replicate 64 0) [] =
     (Inr \<lparr>crypto = known sr25519, isValid = True, isWrapped = False, r_publicKey = []\<rparr>,
      [(ed25519, \<lparr>i_message = [1], i_publicKey = [], i_signature = replicate 64 0\<rparr>),
       (mldsa, \<lparr>i_message = [1], i_publicKey = [], i_signature = replicate 64 0\<rparr>),
       (sr25519, \<lparr>i_message = [1], i_publicKey = [], i_signature = replicate 64 0\<rparr>),
       (ecdsa, \<lparr>i_message = [1], i_publicKey = [], i_signature = replicate 64 0\<rparr>),
       (ethereum, \<lparr>i_message = [1], i_publicKey = [], i_signature = replicate 64 0\<rparr>),
       (ed25519, \<lparr>i_message = [60, 1], i_publicKey = [], i_signature = replicate 64 0\<rparr>),
       (mldsa, \<lparr>i_message = [60, 1], i_publicKey = [], i_signature = replicate 64 0\<rparr>),
       (sr25519, \<lparr>i_message = [60, 1], i_publicKey = [], i_signature = replicate 64 0\<rparr>)])"
proof -
  let ?p = "stub_checks accept_wrapped_sr25519"
  have len: "length (replicate 64 (0::8 word)) \<in>
     {64, 65, 66, MLDSA_SIGNATURE_LENGTH ?p, MLDSA_SIGNATURE_LENGTH ?p + 1}"
    by simp
  have dec: "decodeAddress ?p [] = Some []" by (simp add: stub_checks_def)
  have g: "getVerifyFn ?p (replicate 64 0) = VerifyDetect"
    by (simp add: getVerifyFn_def stub_checks_def)
  show ?thesis
    using signatureVerify_two_passes [OF len dec refl refl, of "[1]"] len dec
    by (simp add: getVerifyFn_def callVerifyFn_def verifyDetect_tried winner_def accepts_def attempt_def
        VERIFIERS_def VERIFIERS_ECDSA_def secp256k1VerifyHasher_def
        stub_checks_def accept_wrapped_sr25519_def)
qed

subsection \<open>The bare path\<close>

lemma signatureVerify_bare:
  assumes len: "length sig \<in> {64, 65, 66, MLDSA_SIGNATURE_LENGTH p, MLDSA_SIGNATURE_LENGTH p + 1}"
      and bare: "getVerifyFn p sig = VerifyDetect"
      and dec: "decodeAddress p addr = Some pk"
  shows "signatureVerify p msg sig addr =
           (case winner (VERIFIERS p @ VERIFIERS_ECDSA p)
                   \<lparr>i_message = msg, i_publicKey = pk, i_signature = sig\<rparr> of
              Some c \<Rightarrow>
                (Inr \<lparr>crypto = known c, isValid = True, isWrapped = u8aIsWrapped p msg True,
                      r_publicKey = pk\<rparr>,
                 tried (VERIFIERS p @ VERIFIERS_ECDSA p)
                   \<lparr>i_message = msg, i_publicKey = pk, i_signature = sig\<rparr>)
            | None \<Rightarrow>
                if u8aIsWrapped p msg True \<and> \<not> u8aIsWrapped p msg False
                then (Inr \<lparr>crypto = none, isValid = False,
                           isWrapped = u8aIsWrapped p msg True, r_publicKey = pk\<rparr>,
                      tried (VERIFIERS p @ VERIFIERS_ECDSA p)
                        \<lparr>i_message = msg, i_publicKey = pk, i_signature = sig\<rparr>)
                else
                  (case winner (VERIFIERS p @ VERIFIERS_ECDSA p)
                          \<lparr>i_message = (if u8aIsWrapped p msg False then u8aUnwrapBytes p msg
                                        else u8aWrapBytes p msg),
                           i_publicKey = pk, i_signature = sig\<rparr> of
                     Some c \<Rightarrow>
                       (Inr \<lparr>crypto = known c, isValid = True,
                             isWrapped = u8aIsWrapped p msg True, r_publicKey = pk\<rparr>,
                        tried (VERIFIERS p @ VERIFIERS_ECDSA p)
                          \<lparr>i_message = msg, i_publicKey = pk, i_signature = sig\<rparr> @
                        tried (VERIFIERS p @ VERIFIERS_ECDSA p)
                          \<lparr>i_message = (if u8aIsWrapped p msg False then u8aUnwrapBytes p msg
                                        else u8aWrapBytes p msg),
                           i_publicKey = pk, i_signature = sig\<rparr>)
                   | None \<Rightarrow>
                       (Inr \<lparr>crypto = none, isValid = False,
                             isWrapped = u8aIsWrapped p msg True, r_publicKey = pk\<rparr>,
                        tried (VERIFIERS p @ VERIFIERS_ECDSA p)
                          \<lparr>i_message = msg, i_publicKey = pk, i_signature = sig\<rparr> @
                        tried (VERIFIERS p @ VERIFIERS_ECDSA p)
                          \<lparr>i_message = (if u8aIsWrapped p msg False then u8aUnwrapBytes p msg
                                        else u8aWrapBytes p msg),
                           i_publicKey = pk, i_signature = sig\<rparr>)))"
proof -
  let ?r0 = "\<lparr>crypto = none, isValid = False, isWrapped = u8aIsWrapped p msg True,
              r_publicKey = pk\<rparr>"
  let ?i1 = "\<lparr>i_message = msg, i_publicKey = pk, i_signature = sig\<rparr>"
  let ?i2 = "\<lparr>i_message = (if u8aIsWrapped p msg False then u8aUnwrapBytes p msg
                              else u8aWrapBytes p msg),
               i_publicKey = pk, i_signature = sig\<rparr>"
  let ?vs = "VERIFIERS p @ VERIFIERS_ECDSA p"
  have p1: "callVerifyFn p (getVerifyFn p sig) ?r0 ?i1 =
              (Inr (outcome ?r0 (winner ?vs ?i1)), tried ?vs ?i1)"
    by (simp add: bare callVerifyFn_detect)
  have p2: "callVerifyFn p (getVerifyFn p sig) ?r0 ?i2 =
              (Inr (outcome ?r0 (winner ?vs ?i2)), tried ?vs ?i2)"
    by (simp add: bare callVerifyFn_detect)
  note unf = signatureVerify_unfold [OF len dec p1]
  show ?thesis
  proof (cases "winner ?vs ?i1")
    case (Some c)
    then show ?thesis unfolding unf by (simp add: outcome_def)
  next
    case None
    then have o1: "outcome ?r0 (winner ?vs ?i1) = ?r0" by (simp add: outcome_def)
    show ?thesis unfolding unf o1 p2 using None
      by (cases "winner ?vs ?i2") (simp_all add: outcome_def)
  qed
qed

text \<open>
  C2, as stated, fails: on a bare signature of 64 bytes that the ed25519 check accepts
  at its full length, \<open>signatureVerify\<close> records ed25519 after one attempt on the full
  signature, whereas the procedure of the claim strips the first byte and ends with
  ``none''.
\<close>

theorem bare_path_counterexample:
  "getVerifyFn (stub_checks accept_ed25519_64) (replicate 64 7) = VerifyDetect \<and>
   signatureVerify (stub_checks accept_ed25519_64) [] (replicate 64 7) [] =
     (Inr \<lparr>crypto = known ed25519, isValid = True, isWrapped = False, r_publicKey = []\<rparr>,
      [(ed25519, \<lparr>i_message = [], i_publicKey = [], i_signature = replicate 64 7\<rparr>)]) \<and>
   fst (bare_path_as_specified (stub_checks accept_ed25519_64)
          \<lparr>i_message = [], i_publicKey = [], i_signature = replicate 64 7\<rparr>) = none"
  by (simp add: Let_def signatureVerify_def getVerifyFn_def callVerifyFn_def verifyDetect_tried
      bare_path_as_specified_def winner_def accepts_def attempt_def
      VERIFIERS_def VERIFIERS_ECDSA_def secp256k1VerifyHasher_def
      stub_checks_def accept_ed25519_64_def)

text \<open>
  C2, amended: for every bare-classified signature, \<open>signatureVerify\<close> tries, in the
  order ed25519, lattice, sr25519, generic secp256k1, Ethereum secp256k1, all five
  checks against the full, unstripped signature. The first check that succeeds is
  recorded as the result's crypto and ends the pass. If none succeeds in the first
  pass, the same five checks run once more on the message with its wrapping toggled
  (unless the message is wrapped in the Ethereum way only); if none succeeds at all, the
  result is invalid with crypto ``none''.
\<close>

theorem bare_path_full_signature:
  assumes len: "length sig \<in> {64, 65, 66, MLDSA_SIGNATURE_LENGTH p, MLDSA_SIGNATURE_LENGTH p + 1}"
      and bare: "getVerifyFn p sig = VerifyDetect"
      and dec: "decodeAddress p addr = Some pk"
      and r0: "r0 = \<lparr>crypto = none, isValid = False, isWrapped = u8aIsWrapped p msg True,
                      r_publicKey = pk\<rparr>"
      and i1: "inp = \<lparr>i_message = msg, i_publicKey = pk, i_signature = sig\<rparr>"
      and i2: "inp' = \<lparr>i_message = (if u8aIsWrapped p msg False then u8aUnwrapBytes p msg
                                       else u8aWrapBytes p msg),
                        i_publicKey = pk, i_signature = sig\<rparr>"
      and vs: "vs = VERIFIERS p @ VERIFIERS_ECDSA p"
  shows "map fst vs = [ed25519, mldsa, sr25519, ecdsa, ethereum] \<and>
         signatureVerify p msg sig addr =
           (case winner vs inp of
              Some c \<Rightarrow> (Inr (r0\<lparr>crypto := known c, isValid := True\<rparr>), tried vs inp)
            | None \<Rightarrow>
                if u8aIsWrapped p msg True \<and> \<not> u8aIsWrapped p msg False
                then (Inr r0, tried vs inp)
                else
                  (case winner vs inp' of
                     Some c \<Rightarrow>
                       (Inr (r0\<lparr>crypto := known c, isValid := True\<rparr>),
                        tried vs inp @ tried vs inp')
                   | None \<Rightarrow> (Inr r0, tried vs inp @ tried vs inp')))"
proof -
  have order: "map fst (VERIFIERS p @ VERIFIERS_ECDSA p) = [ed25519, mldsa, sr25519, ecdsa, ethereum]"
    by (simp add: VERIFIERS_def VERIFIERS_ECDSA_def)
  show ?thesis
    unfolding r0 i1 i2 vs using order signatureVerify_bare [OF len bare dec, of msg]
    by (simp split: option.splits)
qed

theorem bare_path_full_signature_witness:
  "length (replicate 64 (7::8 word)) \<in>
     {64, 65, 66, MLDSA_SIGNATURE_LENGTH (stub_checks (accept_only sr25519)),
      MLDSA_SIGNATURE_LENGTH (stub_checks (accept_only sr25519)) + 1} \<and>
   getVerifyFn (stub_checks (accept_only sr25519)) (replicate 64 7) = VerifyDetect \<and>
   decodeAddress (stub_checks (accept_only sr25519)) [5] = Some [5] \<and>
   signatureVerify (stub_checks (accept_only sr25519)) [1] (replicate 64 7) [5] =
     (Inr \<lparr>crypto = known sr25519, isValid = True, isWrapped = False, r_publicKey = [5]\<rparr>,
      [(ed25519, \<lparr>i_message = [1], i_publicKey = [5], i_signature = replicate 64 7\<rparr>),
       (mldsa, \<lparr>i_message = [1], i_publicKey = [5], i_signature = replicate 64 7\<rparr>),
       (sr25519, \<lparr>i_message = [1], i_publicKey = [5], i_signature = replicate 64 7\<rparr>)])"
proof -
  let ?p = "stub_checks (accept_only sr25519)"
  have len: "length (replicate 64 (7::8 word)) \<in>
     {64, 65, 66, MLDSA_SIGNATURE_LENGTH ?p, MLDSA_SIGNATURE_LENGTH ?p + 1}"
    by simp
  have bare: "getVerifyFn ?p (replicate 64 7) = VerifyDetect"
    by (simp add: getVerifyFn_def stub_checks_def)
  have dec: "decodeAddress ?p [5] = Some [5]" by (simp add: stub_checks_def)
  show ?thesis
    using bare_path_full_signature [OF len bare dec refl refl refl refl, of "[1]"] len bare dec
    by (simp add: winner_def accepts_def attempt_def
        VERIFIERS_def VERIFIERS_ECDSA_def secp256k1VerifyHasher_def
        stub_checks_def accept_only_def)
qed

subsection \<open>The prefixed path\<close>

text \<open>
  C1, as stated, fails: a signature of 65 bytes whose first byte is 0, the
  discriminator of ed25519 in \<open>TYPE_PREFIX\<close>, is prefixed-classified, and
  \<open>signatureVerify\<close> attempts the ed25519, the lattice and the sr25519 check on it;
  when only the sr25519 check accepts, the result is valid with crypto sr25519.
\<close>

theorem prefixed_path_counterexample:
  "getVerifyFn (stub_checks (accept_only sr25519)) (0 # replicate 64 0) = VerifyMultisig \<and>
   byte0 (0 # replicate 64 0) = Some 0 \<and>
   TYPE_PREFIX ed25519 = [0] \<and>
   signatureVerify (stub_checks (accept_only sr25519)) [] (0 # replicate 64 0) [] =
     (Inr \<lparr>crypto = known sr25519, isValid = True, isWrapped = False, r_publicKey = []\<rparr>,
      [(ed25519, \<lparr>i_message = [], i_publicKey = [], i_signature = replicate 64 0\<rparr>),
       (mldsa, \<lparr>i_message = [], i_publicKey = [], i_signature = replicate 64 0\<rparr>),
       (sr25519, \<lparr>i_message = [], i_publicKey = [], i_signature = replicate 64 0\<rparr>)])"
  by (simp add: Let_def signatureVerify_def getVerifyFn_def callVerifyFn_def verifyMultisig_def
      verifyDetect_tried byte0_def winner_def accepts_def attempt_def
      VERIFIERS_def VERIFIERS_ECDSA_def secp256k1VerifyHasher_def
      stub_checks_def accept_only_def)

text \<open>
  C1, amended: for every message, public key and prefixed-classified signature,
  \<open>signatureVerify\<close> strips the one-byte discriminator and runs an ordered trial that
  depends on the length and on the byte 3 only; the first check that accepts is
  recorded and ends the pass, and the result is valid exactly when a check accepted.
  When the first byte is 3 and the length is the lattice length plus one, the trial
  is the lattice check on the stripped signature, and nothing else: each pass makes
  exactly that one attempt. Otherwise, at length 66, the trial is the generic and then
  the Ethereum secp256k1 check on the stripped signature, whatever the byte (0, 1 or
  2). Otherwise, at length 65, the trial is the ed25519, the lattice and the sr25519
  check on the stripped signature and then, when none of them accepts, the generic and
  the Ethereum secp256k1 check on the full, unstripped signature. The bytes 0, 1 and 2
  do not select an algorithm. When the pass on the message records nothing, the same
  trial runs once more on the message with its wrapping toggled (unless the message is
  wrapped in the Ethereum way only); the attempts are exactly those of the trials run.
\<close>

theorem prefixed_path_attempts:
  assumes pre: "getVerifyFn p sig = VerifyMultisig"
      and dec: "decodeAddress p addr = Some pk"
      and r0: "r0 = \<lparr>crypto = none, isValid = False, isWrapped = u8aIsWrapped p msg True,
                      r_publicKey = pk\<rparr>"
      and m2: "msg' = (if u8aIsWrapped p msg False then u8aUnwrapBytes p msg
                       else u8aWrapBytes p msg)"
      and trial: "trial = (\<lambda>m.
          if byte0 sig = Some 3 \<and> length sig = MLDSA_SIGNATURE_LENGTH p + 1
          then (winner [(mldsa, mldsaVerify p)]
                  \<lparr>i_message = m, i_publicKey = pk, i_signature = tl sig\<rparr>,
                tried [(mldsa, mldsaVerify p)]
                  \<lparr>i_message = m, i_publicKey = pk, i_signature = tl sig\<rparr>)
          else if length sig = 66
          then (winner (VERIFIERS_ECDSA p)
                  \<lparr>i_message = m, i_publicKey = pk, i_signature = tl sig\<rparr>,
                tried (VERIFIERS_ECDSA p)
                  \<lparr>i_message = m, i_publicKey = pk, i_signature = tl sig\<rparr>)
          else
            (case winner (VERIFIERS p)
                    \<lparr>i_message = m, i_publicKey = pk, i_signature = tl sig\<rparr> of
               Some c \<Rightarrow>
                 (Some c,
                  tried (VERIFIERS p) \<lparr>i_message = m, i_publicKey = pk, i_signature = tl sig\<rparr>)
             | None \<Rightarrow>
                 (winner (VERIFIERS_ECDSA p)
                    \<lparr>i_message = m, i_publicKey = pk, i_signature = sig\<rparr>,
                  tried (VERIFIERS p) \<lparr>i_message = m, i_publicKey = pk, i_signature = tl sig\<rparr> @
                  tried (VERIFIERS_ECDSA p)
                    \<lparr>i_message = m, i_publicKey = pk, i_signature = sig\<rparr>)))"
  shows "map fst (VERIFIERS p) = [ed25519, mldsa, sr25519] \<and>
         map fst (VERIFIERS_ECDSA p) = [ecdsa, ethereum] \<and>
         signatureVerify p msg sig addr =
           (case trial msg of
              (Some c, t1) \<Rightarrow> (Inr (r0\<lparr>crypto := known c, isValid := True\<rparr>), t1)
            | (None, t1) \<Rightarrow>
                if u8aIsWrapped p msg True \<and> \<not> u8aIsWrapped p msg False
                then (Inr r0, t1)
                else
                  (case trial msg' of
                     (Some c, t2) \<Rightarrow> (Inr (r0\<lparr>crypto := known c, isValid := True\<rparr>), t1 @ t2)
                   | (None, t2) \<Rightarrow> (Inr r0, t1 @ t2))) \<and>
         (byte0 sig = Some 3 \<and> length sig = MLDSA_SIGNATURE_LENGTH p + 1 \<longrightarrow>
            snd (signatureVerify p msg sig addr) =
              [(mldsa, \<lparr>i_message = msg, i_publicKey = pk, i_signature = tl sig\<rparr>)] \<or>
            snd (signatureVerify p msg sig addr) =
              [(mldsa, \<lparr>i_message = msg, i_publicKey = pk, i_signature = tl sig\<rparr>),
               (mldsa, \<lparr>i_message = msg', i_publicKey = pk, i_signature = tl sig\<rparr>)])"
proof -
  let ?r0 = "\<lparr>crypto = none, isValid = False, isWrapped = u8aIsWrapped p msg True,
              r_publicKey = pk\<rparr>"
  have len: "length sig \<in> {64, 65, 66, MLDSA_SIGNATURE_LENGTH p, MLDSA_SIGNATURE_LENGTH p + 1}"
    using pre by (rule prefixed_length)
  have r: "isValid ?r0 = False" "crypto ?r0 = none" by simp_all
  have pass: "callVerifyFn p (getVerifyFn p sig) ?r0
                \<lparr>i_message = m, i_publicKey = pk, i_signature = sig\<rparr> =
              (Inr (outcome ?r0 (fst (trial m))), snd (trial m))" for m
    unfolding pre multisig_pass_exact [OF pre r] trial
    by (simp split: option.splits)
  note unf = signatureVerify_unfold [OF len dec pass [of msg]]
  have main: "signatureVerify p msg sig addr =
           (case trial msg of
              (Some c, t1) \<Rightarrow> (Inr (?r0\<lparr>crypto := known c, isValid := True\<rparr>), t1)
            | (None, t1) \<Rightarrow>
                if u8aIsWrapped p msg True \<and> \<not> u8aIsWrapped p msg False
                then (Inr ?r0, t1)
                else
                  (case trial msg' of
                     (Some c, t2) \<Rightarrow> (Inr (?r0\<lparr>crypto := known c, isValid := True\<rparr>), t1 @ t2)
                   | (None, t2) \<Rightarrow> (Inr ?r0, t1 @ t2)))"
  proof (cases "trial msg")
    case (Pair w1 t1)
    show ?thesis
    proof (cases w1)
      case (Some c)
      show ?thesis unfolding unf Pair Some by (simp add: outcome_def)
    next
      case None
      have o1: "outcome ?r0 (fst (trial msg)) = ?r0" using Pair None by (simp add: outcome_def)
      obtain w2 t2 where p2: "trial msg' = (w2, t2)" by (cases "trial msg'")
      have e: "signatureVerify p msg sig addr =
                 (if u8aIsWrapped p msg True \<and> \<not> u8aIsWrapped p msg False
                  then (Inr ?r0, t1)
                  else (case callVerifyFn p (getVerifyFn p sig) ?r0
                               \<lparr>i_message = msg', i_publicKey = pk, i_signature = sig\<rparr> of
                          (x, t2) \<Rightarrow> (x, t1 @ t2)))"
        unfolding unf o1 m2 using Pair by simp
      show ?thesis unfolding e pass [of msg'] Pair None p2
        by (cases w2) (simp_all add: outcome_def)
    qed
  qed
  have order: "map fst (VERIFIERS p) = [ed25519, mldsa, sr25519]"
    "map fst (VERIFIERS_ECDSA p) = [ecdsa, ethereum]"
    by (simp_all add: VERIFIERS_def VERIFIERS_ECDSA_def)
  have lat: "snd (signatureVerify p msg sig addr) =
              [(mldsa, \<lparr>i_message = msg, i_publicKey = pk, i_signature = tl sig\<rparr>)] \<or>
            snd (signatureVerify p msg sig addr) =
              [(mldsa, \<lparr>i_message = msg, i_publicKey = pk, i_signature = tl sig\<rparr>),
               (mldsa, \<lparr>i_message = msg', i_publicKey = pk, i_signature = tl sig\<rparr>)]"
    if l: "byte0 sig = Some 3 \<and> length sig = MLDSA_SIGNATURE_LENGTH p + 1"
  proof -
    have t: "snd (trial m) = [(mldsa, \<lparr>i_message = m, i_publicKey = pk, i_signature = tl sig\<rparr>)]" for m
      using l by (simp add: trial attempt_def)
    show ?thesis unfolding main using t [of msg] t [of msg']
      by (cases "trial msg"; cases "trial msg'") (auto split: option.splits)
  qed
  from order main lat show ?thesis unfolding r0 by blast
qed

theorem prefixed_path_attempts_witness:
  "getVerifyFn (stub_checks (accept_only ecdsa)) (0 # replicate 64 0) = VerifyMultisig \<and>
   decodeAddress (stub_checks (accept_only ecdsa)) [9] = Some [9] \<and>
   signatureVerify (stub_checks (accept_only ecdsa)) [] (0 # replicate 64 0) [9] =
     (Inr \<lparr>crypto = known ecdsa, isValid = True, isWrapped = False, r_publicKey = [9]\<rparr>,
      [(ed25519, \<lparr>i_message = [], i_publicKey = [9], i_signature = replicate 64 0\<rparr>),
       (mldsa, \<lparr>i_message = [], i_publicKey = [9], i_signature = replicate 64 0\<rparr>),
       (sr25519, \<lparr>i_message = [], i_publicKey = [9], i_signature = replicate 64 0\<rparr>),
       (ecdsa, \<lparr>i_message = [], i_publicKey = [9], i_signature = 0 # replicate 64 0\<rparr>)]) \<and>
   getVerifyFn (stub_checks reject_all) (3 # replicate 4627 0) = VerifyMultisig \<and>
   byte0 (3 # replicate 4627 0) = Some 3 \<and>
   length (3 # replicate 4627 (0::8 word)) = MLDSA_SIGNATURE_LENGTH (stub_checks reject_all) + 1 \<and>
   signatureVerify (stub_checks reject_all) [] (3 # replicate 4627 0) [9] =
     (Inr \<lparr>crypto = none, isValid = False, isWrapped = False, r_publicKey = [9]\<rparr>,
      [(mldsa, \<lparr>i_message = [], i_publicKey = [9], i_signature = replicate 4627 0\<rparr>),
       (mldsa, \<lparr>i_message = [60], i_publicKey = [9], i_signature = replicate 4627 0\<rparr>)])"
proof -
  let ?p = "stub_checks (accept_only ecdsa)"
  let ?q = "stub_checks reject_all"
  have pre: "getVerifyFn ?p (0 # replicate 64 0) = VerifyMultisig"
    by (simp add: getVerifyFn_def byte0_def)
  have dec: "decodeAddress ?p [9] = Some [9]" by (simp add: stub_checks_def)
  have preq: "getVerifyFn ?q (3 # replicate 4627 0) = VerifyMultisig"
    by (simp add: getVerifyFn_def byte0_def stub_checks_def)
  have decq: "decodeAddress ?q [9] = Some [9]" by (simp add: stub_checks_def)
  have b3: "byte0 (3 # replicate 4627 0) = Some 3" by (simp add: byte0_def)
  have l3: "length (3 # replicate 4627 (0::8 word)) = MLDSA_SIGNATURE_LENGTH ?q + 1"
    by (simp add: stub_checks_def)
  have a: "signatureVerify ?p [] (0 # replicate 64 0) [9] =
     (Inr \<lparr>crypto = known ecdsa, isValid = True, isWrapped = False, r_publicKey = [9]\<rparr>,
      [(ed25519, \<lparr>i_message = [], i_publicKey = [9], i_signature = replicate 64 0\<rparr>),
       (mldsa, \<lparr>i_message = [], i_publicKey = [9], i_signature = replicate 64 0\<rparr>),
       (sr25519, \<lparr>i_message = [], i_publicKey = [9], i_signature = replicate 64 0\<rparr>),
       (ecdsa, \<lparr>i_message = [], i_publicKey = [9], i_signature = 0 # replicate 64 0\<rparr>)])"
    using prefixed_path_attempts [OF pre dec refl refl refl, of "[]"]
    by (simp add: byte0_def winner_def accepts_def attempt_def
        VERIFIERS_def VERIFIERS_ECDSA_def secp256k1VerifyHasher_def
        stub_checks_def accept_only_def)
  have b: "signatureVerify ?q [] (3 # replicate 4627 0) [9] =
     (Inr \<lparr>crypto = none, isValid = False, isWrapped = False, r_publicKey = [9]\<rparr>,
      [(mldsa, \<lparr>i_message = [], i_publicKey = [9], i_signature = replicate 4627 0\<rparr>),
       (mldsa, \<lparr>i_message = [60], i_publicKey = [9], i_signature = replicate 4627 0\<rparr>)])"
    using prefixed_path_attempts [OF preq decq refl refl refl, of "[]"]
    by (simp add: byte0_def winner_def accepts_def attempt_def
        stub_checks_def reject_all_def)
  from pre dec a preq b3 l3 b show ?thesis by simp
qed

subsection \<open>A first byte outside 0..3\<close>

text \<open>
  C3, as stated, fails: a signature of 65 bytes whose first byte is 4 does not make
  \<open>signatureVerify\<close> throw; with checks that all reject, the outcome is the ordinary
  invalid result with crypto ``none''.
\<close>

theorem unknown_prefix_counterexample:
  "length (4 # replicate 64 (0::8 word)) = 65 \<and>
   byte0 (4 # replicate 64 0) = Some 4 \<and>
   fst (signatureVerify (stub_checks reject_all) [] (4 # replicate 64 0) []) =
     Inr \<lparr>crypto = none, isValid = False, isWrapped = False, r_publicKey = []\<rparr>"
  by (simp add: Let_def signatureVerify_def getVerifyFn_def callVerifyFn_def verifyDetect_tried
      byte0_def winner_def accepts_def attempt_def
      VERIFIERS_def VERIFIERS_ECDSA_def secp256k1VerifyHasher_def
      stub_checks_def reject_all_def)

text \<open>
  C3, amended: for every signature whose length matches the prefixed-format window
  (65, 66, or the lattice length plus one) but whose first byte is outside 0..3,
  \<open>getVerifyFn\<close> selects the bare path, so \<open>signatureVerify\<close> reports no format error:
  once the address is decoded it returns an ordinary result, valid exactly when an
  algorithm is recorded, after attempts on the full signature only (and when the
  address decoder throws, that exception is the outcome). The format error for such
  a signature is thrown by \<open>verifyMultisig\<close> alone, when it is called on it directly.
\<close>

theorem unknown_prefix_takes_bare_path:
  assumes win: "length sig \<in> {65, 66, MLDSA_SIGNATURE_LENGTH p + 1}"
      and b0: "byte0 sig \<notin> {Some 0, Some 1, Some 2, Some 3}"
  shows "getVerifyFn p sig = VerifyDetect \<and>
         (case decodeAddress p addr of
            None \<Rightarrow> signatureVerify p msg sig addr = (Inl (CollaboratorError ''decodeAddress''), [])
          | Some pk \<Rightarrow>
              (\<exists>r t. signatureVerify p msg sig addr = (Inr r, t) \<and>
                      (isValid r \<longleftrightarrow> crypto r \<noteq> none) \<and>
                      (\<forall>a \<in> set t. i_signature (snd a) = sig))) \<and>
         verifyMultisig p r' \<lparr>i_message = msg, i_publicKey = k, i_signature = sig\<rparr> =
           (Inl (UnknownCryptoType (byte0 sig)), [])"
proof -
  have len: "length sig \<in> {64, 65, 66, MLDSA_SIGNATURE_LENGTH p, MLDSA_SIGNATURE_LENGTH p + 1}"
    using win by auto
  have bare: "getVerifyFn p sig = VerifyDetect"
    using b0 by (auto simp: getVerifyFn_def)
  have thr: "verifyMultisig p r' \<lparr>i_message = msg, i_publicKey = k, i_signature = sig\<rparr> =
           (Inl (UnknownCryptoType (byte0 sig)), [])"
    using b0 by (auto simp: verifyMultisig_def)
  have "case decodeAddress p addr of
            None \<Rightarrow> signatureVerify p msg sig addr = (Inl (CollaboratorError ''decodeAddress''), [])
          | Some pk \<Rightarrow>
              (\<exists>r t. signatureVerify p msg sig addr = (Inr r, t) \<and>
                      (isValid r \<longleftrightarrow> crypto r \<noteq> none) \<and>
                      (\<forall>a \<in> set t. i_signature (snd a) = sig))"
  proof (cases "decodeAddress p addr")
    case None
    have "(\<not> length sig \<in> {64, 65, 66, MLDSA_SIGNATURE_LENGTH p, MLDSA_SIGNATURE_LENGTH p + 1}) = False"
      using len by blast
    then have "signatureVerify p msg sig addr = (Inl (CollaboratorError ''decodeAddress''), [])"
      unfolding signatureVerify_def Let_def using None
      by (simp only: if_False option.case)
    then show ?thesis using None by simp
  next
    case (Some pk)
    let ?vs = "VERIFIERS p @ VERIFIERS_ECDSA p"
    let ?i1 = "\<lparr>i_message = msg, i_publicKey = pk, i_signature = sig\<rparr>"
    let ?i2 = "\<lparr>i_message = (if u8aIsWrapped p msg False then u8aUnwrapBytes p msg
                              else u8aWrapBytes p msg),
               i_publicKey = pk, i_signature = sig\<rparr>"
    have s1: "\<forall>a \<in> set (tried ?vs ?i1). i_signature (snd a) = sig"
      using tried_sound [of _ ?vs ?i1] by auto
    have s2: "\<forall>a \<in> set (tried ?vs ?i2). i_signature (snd a) = sig"
      using tried_sound [of _ ?vs ?i2] by auto
    have "\<exists>r t. signatureVerify p msg sig addr = (Inr r, t) \<and>
                      (isValid r \<longleftrightarrow> crypto r \<noteq> none) \<and>
                      (\<forall>a \<in> set t. i_signature (snd a) = sig)"
      using signatureVerify_bare [OF len bare Some, of msg] s1 s2
      by (auto split: option.splits if_splits)
    then show ?thesis using Some by simp
  qed
  with bare thr show ?thesis by simp
qed

theorem unknown_prefix_takes_bare_path_witness:
  "length (4 # replicate 64 (0::8 word)) \<in>
     {65, 66, MLDSA_SIGNATURE_LENGTH (stub_checks reject_all) + 1} \<and>
   byte0 (4 # replicate 64 0) \<notin> {Some 0, Some 1, Some 2, Some 3} \<and>
   getVerifyFn (stub_checks reject_all) (4 # replicate 64 0) = VerifyDetect \<and>
   verifyMultisig (stub_checks reject_all)
      \<lparr>crypto = none, isValid = False, isWrapped = False, r_publicKey = []\<rparr>
      \<lparr>i_message = [], i_publicKey = [], i_signature = 4 # replicate 64 0\<rparr> =
     (Inl (UnknownCryptoType (Some 4)), [])"
proof -
  have win: "length (4 # replicate 64 (0::8 word)) \<in>
     {65, 66, MLDSA_SIGNATURE_LENGTH (stub_checks reject_all) + 1}" by simp
  have b0: "byte0 (4 # replicate 64 0) \<notin> {Some 0, Some 1, Some 2, Some 3}"
    by (simp add: byte0_def)
  have b4: "byte0 (4 # replicate 64 0) = Some 4" by (simp add: byte0_def)
  show ?thesis
    using unknown_prefix_takes_bare_path [OF win b0, of "[]" "[]"
        "\<lparr>crypto = none, isValid = False, isWrapped = False, r_publicKey = []\<rparr>" "[]"] win b0
    unfolding b4 by simp
qed

section \<open>Properties of the derivation engine and of the pair\<close>

subsection \<open>Derivation on the Ethereum type\<close>

text \<open>
  C6, as stated, fails in its second part: \<open>generators\<close> has an entry for the Ethereum
  type, and stepping one junction on it through \<open>keyFromPath\<close> returns a derived
  keypair.
\<close>

theorem ethereum_step_counterexample:
  "keyFromPath stub_hdkd \<lparr>k_publicKey = [1], k_secretKey = [2]\<rparr>
     [\<lparr>chainCode = [9], isHard = True\<rparr>] ethereum =
   Inr \<lparr>k_publicKey = [9, 1], k_secretKey = [9, 2]\<rparr>"
  by (simp add: keyFromPath_def generators_def stub_hdkd_def stub_step_def)

text \<open>
  C6, amended: for every Ethereum-style pair, \<open>derive\<close> is a usage error: it throws
  before anything else is looked at, whatever the state of the pair, the secret URI and
  the metadata. The registry of the derivation engine maps the Ethereum type to the
  step function of generic secp256k1, so \<open>keyFromPath\<close> on the Ethereum type behaves
  exactly as on the generic secp256k1 type.
\<close>

theorem ethereum_derive_throws:
  "derive pp (pr\<lparr>ptype := ethereum\<rparr>) suri meta' = Inl UnableToDerive \<and>
   generators h ethereum = Some (keyHdkdEcdsa h) \<and>
   keyFromPath h pair path ethereum = keyFromPath h pair path ecdsa"
  by (simp add: derive_def generators_def keyFromPath_def)

subsection \<open>The empty path\<close>

lemma address_depends:
  "ptype a = ptype b \<Longrightarrow> publicKey a = publicKey b \<Longrightarrow> toSS58 a = toSS58 b \<Longrightarrow>
   address pp a = address pp b"
  by (simp add: address_def encodeAddress_def split: sum.splits)

lemma generators_total: "\<exists>k. generators h type = Some k"
  by (cases type) (simp_all add: generators_def)

text \<open>
  C7, as stated, fails for a locked pair: on a locked sr25519 pair, \<open>derive\<close> with a
  secret URI that parses to the empty path throws the locked-keypair error and yields
  no pair.
\<close>

theorem derive_locked_counterexample:
  "keyExtractPath stub_pair_prims [] = Some [] \<and>
   derive stub_pair_prims (stub_pair sr25519 (Some []) None) [] None = Inl CannotDeriveLocked"
  by (simp add: derive_def isLocked_def stub_pair_prims_def stub_pair_def)

text \<open>
  C7, amended: for every keypair and every algorithm type, folding the empty junction
  path through \<open>keyFromPath\<close> returns the original keypair unchanged; consequently,
  for every unlocked pair of every algorithm except the Ethereum one, \<open>derive\<close> with a
  secret URI that parses to the empty path yields a pair whose type, public key, secret
  key and address equal the original's.
\<close>

theorem empty_path_identity:
  "keyFromPath h pair [] type = Inr pair \<and>
   (ptype pr \<noteq> ethereum \<and> \<not> isLocked pp (secretKey pr) \<and> keyExtractPath pp suri = Some [] \<longrightarrow>
      (\<exists>pr'. derive pp pr suri meta' = Inr pr' \<and>
             publicKey pr' = publicKey pr \<and> secretKey pr' = secretKey pr \<and>
             ptype pr' = ptype pr \<and> address pp pr' = address pp pr))"
proof -
  obtain k where k: "generators h type = Some k" using generators_total by blast
  have id: "keyFromPath h' pair' [] type' = Inr pair'" for h' pair' type'
    using generators_total [of h' type'] by (auto simp: keyFromPath_def)
  have "\<exists>pr'. derive pp pr suri meta' = Inr pr' \<and>
             publicKey pr' = publicKey pr \<and> secretKey pr' = secretKey pr \<and>
             ptype pr' = ptype pr \<and> address pp pr' = address pp pr"
    if a: "ptype pr \<noteq> ethereum" "\<not> isLocked pp (secretKey pr)" "keyExtractPath pp suri = Some []"
  proof -
    obtain sk where sk: "secretKey pr = Some sk"
      using a(2) by (cases "secretKey pr") (simp_all add: isLocked_def)
    let ?pr' = "createPair (toSS58 pr) (ptype pr)
                  \<lparr>pi_publicKey = publicKey pr, pi_secretKey = Some sk\<rparr>
                  (case meta' of None \<Rightarrow> Map.empty | Some m \<Rightarrow> m) None None"
    have d: "derive pp pr suri meta' = Inr ?pr'"
      using a sk by (simp add: derive_def id)
    have "address pp ?pr' = address pp pr"
      by (rule address_depends) (simp_all add: createPair_def)
    then show ?thesis using d sk by (simp add: createPair_def)
  qed
  then show ?thesis using id by blast
qed

theorem empty_path_identity_witness:
  "ptype (stub_pair sr25519 (Some [7]) None) \<noteq> ethereum \<and>
   \<not> isLocked stub_pair_prims (secretKey (stub_pair sr25519 (Some [7]) None)) \<and>
   keyExtractPath stub_pair_prims [] = Some [] \<and>
   (\<exists>pr'. derive stub_pair_prims (stub_pair sr25519 (Some [7]) None) [] None = Inr pr' \<and>
          publicKey pr' = [1, 2, 3] \<and>
          address stub_pair_prims pr' = Inr ''5abc'')"
proof -
  let ?pr = "stub_pair sr25519 (Some [7]) None"
  have h: "ptype ?pr \<noteq> ethereum \<and> \<not> isLocked stub_pair_prims (secretKey ?pr) \<and>
           keyExtractPath stub_pair_prims [] = Some []"
    by (simp add: stub_pair_def stub_pair_prims_def isLocked_def)
  have pk: "publicKey ?pr = [1, 2, 3]" by (simp add: stub_pair_def)
  have ad: "address stub_pair_prims ?pr = Inr ''5abc''"
    by (simp add: address_def encodeAddress_def stub_pair_def)
  from empty_path_identity [of stub_hdkd "\<lparr>k_publicKey = [], k_secretKey = []\<rparr>" sr25519
       ?pr stub_pair_prims "[]" None] h
  have "\<exists>pr'. derive stub_pair_prims ?pr [] None = Inr pr' \<and>
             publicKey pr' = publicKey ?pr \<and> secretKey pr' = secretKey ?pr \<and>
             ptype pr' = ptype ?pr \<and> address stub_pair_prims pr' = address stub_pair_prims ?pr"
    by blast
  then show ?thesis using h unfolding pk ad by blast
qed

subsection \<open>Locking\<close>

lemma applyUpdate_keeps:
  "secretKey pr = Some [] \<Longrightarrow> secretKey (applyUpdate pr u) = Some []"
  by (cases u) (simp_all add: lock_def setMeta_def)

lemma updates_keep_locked:
  "secretKey pr = Some [] \<Longrightarrow> secretKey (foldl applyUpdate pr us) = Some []"
  by (induction us arbitrary: pr) (simp_all add: applyUpdate_keeps)

text \<open>
  C8: \<open>lock\<close> is idempotent and leaves the public key and the address as they were;
  and, an empty byte array being empty for \<open>u8aEmpty\<close>, the pair is locked after it and
  every later \<open>sign\<close>, for every message and option, and after any further \<open>lock\<close> and
  \<open>setMeta\<close> calls, fails with the locked-key error. (The methods left out are those
  that decode a container, which unlock the pair again.) It holds for every pair, so
  for every unlocked one.
\<close>

theorem lock_idempotent_and_blocks_sign:
  "lock (lock pr) = lock pr \<and>
   publicKey (lock pr) = publicKey pr \<and>
   address pp (lock pr) = address pp pr \<and>
   (u8aEmpty pp [] \<longrightarrow>
      isLocked pp (secretKey (lock pr)) \<and>
      (\<forall>us message withType.
         sign pp (foldl applyUpdate (lock pr) us) message withType = Inl CannotSignLocked))"
proof -
  have a: "address pp (lock pr) = address pp pr"
    by (rule address_depends) (simp_all add: lock_def)
  have s: "sign pp (foldl applyUpdate (lock pr) us) message withType = Inl CannotSignLocked"
    if e: "u8aEmpty pp []" for us message withType
  proof -
    have "secretKey (foldl applyUpdate (lock pr) us) = Some []"
      by (rule updates_keep_locked) (simp add: lock_def)
    then show ?thesis using e by (simp add: sign_def isLocked_def)
  qed
  show ?thesis using a s by (simp add: lock_def isLocked_def)
qed

theorem lock_idempotent_and_blocks_sign_witness:
  "u8aEmpty stub_pair_prims [] \<and>
   \<not> isLocked stub_pair_prims (secretKey (stub_pair sr25519 (Some [7]) None)) \<and>
   sign stub_pair_prims (stub_pair sr25519 (Some [7]) None) [1] False = Inr [7, 1] \<and>
   sign stub_pair_prims
     (foldl applyUpdate (lock (stub_pair sr25519 (Some [7]) None)) [SetMeta Map.empty, Lock])
     [1] False = Inl CannotSignLocked \<and>
   address stub_pair_prims (lock (stub_pair sr25519 (Some [7]) None)) = Inr ''5abc''"
proof -
  let ?pr = "stub_pair sr25519 (Some [7]) None"
  have e: "u8aEmpty stub_pair_prims []" by (simp add: stub_pair_prims_def)
  have u: "\<not> isLocked stub_pair_prims (secretKey ?pr)"
    by (simp add: isLocked_def stub_pair_prims_def stub_pair_def)
  have sg: "sign stub_pair_prims ?pr [1] False = Inr [7, 1]"
    by (simp add: sign_def isLocked_def stub_pair_prims_def stub_pair_def SIG_TYPE_NONE_def)
  have ad: "address stub_pair_prims ?pr = Inr ''5abc''"
    by (simp add: address_def encodeAddress_def stub_pair_def)
  from lock_idempotent_and_blocks_sign [of ?pr stub_pair_prims] e
  have "address stub_pair_prims (lock ?pr) = address stub_pair_prims ?pr"
    and "sign stub_pair_prims (foldl applyUpdate (lock ?pr) [SetMeta Map.empty, Lock]) [1] False =
           Inl CannotSignLocked"
    by blast+
  then show ?thesis using e u sg ad by simp
qed

subsection \<open>Verification by a lattice pair\<close>

text \<open>
  C10: for a pair of the lattice type, \<open>verify\<close> never throws. Its only attempt is the
  lattice check on the message, the signature and the signer's public key as they were
  passed (no address transform, no \<open>signatureVerify\<close>), and the answer is true exactly
  when that check returns true: a false answer and an exception both give false. For
  the other types a signature of an unrecognised length makes \<open>verify\<close> throw the
  length error of \<open>signatureVerify\<close>.
\<close>

theorem mldsa_verify_never_throws:
  "verify vp pp (pr\<lparr>ptype := mldsa\<rparr>) message signature signerPublic =
     (Inr (mldsaVerify vp message signature signerPublic = Some True),
      [(mldsa, \<lparr>i_message = message, i_publicKey = signerPublic, i_signature = signature\<rparr>)]) \<and>
   (ptype pr \<noteq> mldsa \<and> TYPE_ADDRESS pp (ptype pr) signerPublic = Inr a \<and>
    length signature \<notin> {64, 65, 66, MLDSA_SIGNATURE_LENGTH vp, MLDSA_SIGNATURE_LENGTH vp + 1} \<longrightarrow>
      verify vp pp pr message signature signerPublic =
        (Inl (InvalidSignatureLength (length signature)), []))"
proof -
  have "verify vp pp (pr\<lparr>ptype := mldsa\<rparr>) message signature signerPublic =
     (Inr (mldsaVerify vp message signature signerPublic = Some True),
      [(mldsa, \<lparr>i_message = message, i_publicKey = signerPublic, i_signature = signature\<rparr>)])"
    by (cases "mldsaVerify vp message signature signerPublic") (simp_all add: verify_def)
  moreover have "verify vp pp pr message signature signerPublic =
        (Inl (InvalidSignatureLength (length signature)), [])"
    if "ptype pr \<noteq> mldsa" "TYPE_ADDRESS pp (ptype pr) signerPublic = Inr a"
       "length signature \<notin> {64, 65, 66, MLDSA_SIGNATURE_LENGTH vp, MLDSA_SIGNATURE_LENGTH vp + 1}"
    using that by (simp add: verify_def signatureVerify_def)
  ultimately show ?thesis by blast
qed

theorem mldsa_verify_never_throws_witness:
  "verify (stub_checks throw_all) stub_pair_prims (stub_pair mldsa None None)
      [] (replicate 67 0) [] =
     (Inr False,
      [(mldsa, \<lparr>i_message = [], i_publicKey = [], i_signature = replicate 67 0\<rparr>)]) \<and>
   verify (stub_checks reject_all) stub_pair_prims (stub_pair sr25519 None None)
      [] (replicate 67 0) [] = (Inl (InvalidSignatureLength 67), [])"
proof -
  have m: "(stub_pair mldsa None None)\<lparr>ptype := mldsa\<rparr> = stub_pair mldsa None None"
    by (simp add: stub_pair_def)
  have h: "ptype (stub_pair sr25519 None None) \<noteq> mldsa \<and>
           TYPE_ADDRESS stub_pair_prims (ptype (stub_pair sr25519 None None)) [] = Inr [] \<and>
           length (replicate 67 (0::8 word)) \<notin>
             {64, 65, 66, MLDSA_SIGNATURE_LENGTH (stub_checks reject_all),
              MLDSA_SIGNATURE_LENGTH (stub_checks reject_all) + 1}"
    by (simp add: stub_pair_def stub_checks_def)
  have rj: "mldsaVerify (stub_checks throw_all) [] (replicate 67 0) [] = None"
    by (simp add: stub_checks_def throw_all_def)
  from mldsa_verify_never_throws [where vp = "stub_checks throw_all" and pp = stub_pair_prims
        and pr = "stub_pair mldsa None None" and message = "[]" and signature = "replicate 67 0"
        and signerPublic = "[]"]
  have 1: "verify (stub_checks throw_all) stub_pair_prims (stub_pair mldsa None None)
      [] (replicate 67 0) [] =
     (Inr False,
      [(mldsa, \<lparr>i_message = [], i_publicKey = [], i_signature = replicate 67 0\<rparr>)])"
    unfolding m rj by simp
  from mldsa_verify_never_throws [where vp = "stub_checks reject_all" and pp = stub_pair_prims
        and pr = "stub_pair sr25519 None None" and message = "[]" and signature = "replicate 67 0"
        and signerPublic = "[]" and a = "[]"] h
  have 2: "verify (stub_checks reject_all) stub_pair_prims (stub_pair sr25519 None None)
      [] (replicate 67 0) [] = (Inl (InvalidSignatureLength 67), [])"
    by simp
  from 1 2 show ?thesis by simp
qed

subsection \<open>Encoding a locked pair\<close>





end
